theory Spec2Isabelle
  imports Complex_Main
begin

section \<open>Python exceptions\<close>

text \<open>
  Every exception the modelled code can raise is a value of \<open>py_error\<close>; a function
  that may raise returns a sum, with \<open>Inl\<close> for the exception that leaves the call
  (together with the state the call leaves behind, where the call changes an object in
  place). None of the three source files contains a \<^verbatim>\<open>try\<close>, so an exception raised
  anywhere ends the whole enclosing call.
\<close>

datatype py_error =
    KeyError string
  | AttributeError string
  | ImportError string
  | ValueError string
  | ZeroDivisionError
  | WeightsShapeError

section \<open>Colour adjustment: plugins/convert/color/avg\_color.py\<close>

subsection \<open>Arrays and floating-point arithmetic\<close>

text \<open>
  A numpy array of rank three, as the docstring of \<^verbatim>\<open>Color.process\<close> declares its
  three arguments: a shape (height, width, channels), an element type and the elements,
  row by row. The elements are values of a type \<open>'f\<close> that the model leaves open: the
  machine numbers, with their infinities and NaN. A numpy array is always rectangular;
  \<open>well_shaped\<close> states it.
\<close>

datatype dtype = UInt8 | Float32 | Float64

record 'f ndarray =
  shape :: "nat \<times> nat \<times> nat"
  dtype :: dtype
  elems :: "'f list list list"

definition well_shaped :: "'f ndarray \<Rightarrow> bool" where
  "well_shaped a =
     (case shape a of (h, w, c) \<Rightarrow>
        length (elems a) = h \<and>
        list_all (\<lambda>row. length row = w \<and> list_all (\<lambda>px. length px = c) row) (elems a))"

text \<open>
  The arithmetic of numpy is a parameter of the model, so that nothing proved depends on
  how the machine rounds, overflows or orders a sum. Every operation takes the element
  type it computes in (numpy casts the operands to it first; in \<^verbatim>\<open>process\<close> every such
  cast widens and keeps the value): the four element-wise operations, \<open>np_sum\<close> for the
  sum of a sequence of elements (\<^verbatim>\<open>np.sum\<close>), the test \<^verbatim>\<open>x == 0.0\<close>, the test
  \<^verbatim>\<open>x >= 0\<close>, and whether a value is one of an element type.
\<close>

record 'f arith =
  np_add :: "dtype \<Rightarrow> 'f \<Rightarrow> 'f \<Rightarrow> 'f"
  np_subtract :: "dtype \<Rightarrow> 'f \<Rightarrow> 'f \<Rightarrow> 'f"
  np_multiply :: "dtype \<Rightarrow> 'f \<Rightarrow> 'f \<Rightarrow> 'f"
  np_divide :: "dtype \<Rightarrow> 'f \<Rightarrow> 'f \<Rightarrow> 'f"
  np_sum :: "dtype \<Rightarrow> 'f list \<Rightarrow> 'f"
  is_zero :: "'f \<Rightarrow> bool"
  nonneg :: "'f \<Rightarrow> bool"
  has_dtype :: "dtype \<Rightarrow> 'f \<Rightarrow> bool"

text \<open>
  \<^verbatim>\<open>np.result_type\<close> on two arrays, for the three element types of the model: the
  wider floating type wins, and an integer array joined with a floating one is floating.
\<close>

fun promote :: "dtype \<Rightarrow> dtype \<Rightarrow> dtype" where
  "promote Float64 _ = Float64"
| "promote _ Float64 = Float64"
| "promote Float32 _ = Float32"
| "promote _ Float32 = Float32"
| "promote UInt8 UInt8 = UInt8"

subsection \<open>np.average over the two spatial axes\<close>

text \<open>
  \<open>channel d k\<close> are the elements of channel \<open>k\<close>, pixel after pixel in row-major order,
  and \<open>chan_sum A t d k\<close> is \<^verbatim>\<open>d.sum(axis=(0, 1), dtype=t)[k]\<close>: numpy's sum of them.
\<close>

definition channel :: "'f list list list \<Rightarrow> nat \<Rightarrow> 'f list" where
  "channel d k = concat (map (map (\<lambda>px. px ! k)) d)"

definition chan_sum :: "'f arith \<Rightarrow> dtype \<Rightarrow> 'f list list list \<Rightarrow> nat \<Rightarrow> 'f" where
  "chan_sum A t d k = np_sum A t (channel d k)"

text \<open>\<^verbatim>\<open>np.multiply(a, wgt, dtype=t)\<close> on two arrays of one shape.\<close>

definition multiply :: "'f arith \<Rightarrow> dtype \<Rightarrow> 'f list list list \<Rightarrow> 'f list list list \<Rightarrow> 'f list list list" where
  "multiply A t a wgt = map2 (map2 (map2 (np_multiply A t))) a wgt"

text \<open>
  \<^verbatim>\<open>np.average(a, axis=(0, 1), weights=wgt)\<close>. numpy refuses weights of rank three
  whose shape is not the shape of \<open>a\<close>. The result type is \<^verbatim>\<open>float64\<close> for an integer
  \<open>a\<close>, else the common type of \<open>a\<close> and \<open>wgt\<close>; in it numpy sums the weights of each
  channel (\<^verbatim>\<open>scl = wgt.sum(axis=axis, dtype=result_dtype)\<close>), raises
  \<^verbatim>\<open>ZeroDivisionError\<close> when the sum of \<^emph>\<open>any\<close> channel compares equal to zero
  (\<^verbatim>\<open>if np.any(scl == 0.0)\<close>), and otherwise returns, per channel, the sum of the
  products of element and weight divided by the sum of the weights
  (\<^verbatim>\<open>np.multiply(a, wgt, dtype=result_dtype).sum(axis) / scl\<close>).
\<close>

definition average_dtype :: "dtype \<Rightarrow> dtype \<Rightarrow> dtype" where
  "average_dtype da dw = (if da = UInt8 then Float64 else promote da dw)"

definition np_average :: "'f arith \<Rightarrow> 'f ndarray \<Rightarrow> 'f ndarray \<Rightarrow> py_error + (dtype \<times> 'f list)" where
  "np_average A a wgt =
     (if shape a \<noteq> shape wgt then Inl WeightsShapeError
      else case shape a of (h, w, c) \<Rightarrow>
        let result_dtype = average_dtype (dtype a) (dtype wgt);
            scl = map (chan_sum A result_dtype (elems wgt)) [0..<c]
        in if list_ex (is_zero A) scl then Inl ZeroDivisionError
           else Inr (result_dtype,
                     map (\<lambda>k. np_divide A result_dtype
                                 (chan_sum A result_dtype
                                    (multiply A result_dtype (elems a) (elems wgt)) k)
                                 (scl ! k)) [0..<c]))"

subsection \<open>Color.process\<close>

text \<open>
  \<^verbatim>\<open>
  old_mean = np.average(old_face, axis=(0, 1), weights=raw_mask)
  new_mean = np.average(new_face, axis=(0, 1), weights=raw_mask)
  new_face_shifted = new_face + (old_mean - new_mean)
  return new_face_shifted
  \<close>
  The difference of the two means is a vector with one entry per channel, computed in
  the common type of the two means; adding it to \<open>new_face\<close> broadcasts it over every
  pixel, in the common type of \<open>new_face\<close> and the difference.
\<close>

definition broadcast_add :: "'f arith \<Rightarrow> dtype \<Rightarrow> 'f list list list \<Rightarrow> 'f list \<Rightarrow> 'f list list list" where
  "broadcast_add A t a v = map (map (\<lambda>px. map2 (np_add A t) px v)) a"

definition process :: "'f arith \<Rightarrow> 'f ndarray \<Rightarrow> 'f ndarray \<Rightarrow> 'f ndarray \<Rightarrow> py_error + 'f ndarray" where
  "process A old_face new_face raw_mask =
     (case np_average A old_face raw_mask of
        Inl e \<Rightarrow> Inl e
      | Inr (old_dt, old_mean) \<Rightarrow>
     (case np_average A new_face raw_mask of
        Inl e \<Rightarrow> Inl e
      | Inr (new_dt, new_mean) \<Rightarrow>
          let diff_dt = promote old_dt new_dt;
              out_dt = promote (dtype new_face) diff_dt
          in Inr \<lparr> shape = shape new_face,
                   dtype = out_dt,
                   elems = broadcast_add A out_dt (elems new_face)
                             (map2 (np_subtract A diff_dt) old_mean new_mean) \<rparr>))"

subsection \<open>The specification's terms\<close>

text \<open>
  The mask-weighted mean of channel \<open>k\<close> as the specification words it, by pixel
  position: the sum over all positions of element times weight, divided by the sum of
  the weights; sums, products and quotient are numpy's, in the element type \<open>t\<close>.
\<close>

definition weighted_mean :: "'f arith \<Rightarrow> dtype \<Rightarrow> 'f ndarray \<Rightarrow> 'f ndarray \<Rightarrow> nat \<Rightarrow> 'f" where
  "weighted_mean A t a m k =
     (case shape a of (h, w, c) \<Rightarrow>
        np_divide A t
          (np_sum A t (concat (map (\<lambda>i. map (\<lambda>j. np_multiply A t (elems a ! i ! j ! k)
                                                               (elems m ! i ! j ! k))
                                            [0..<w]) [0..<h])))
          (np_sum A t (concat (map (\<lambda>i. map (\<lambda>j. elems m ! i ! j ! k) [0..<w]) [0..<h]))))"

text \<open>
  A weight mask: every weight is a value of the mask's element type and is not
  negative, and every channel holds at least one weight that is not zero, so that each
  of the computations (one per channel) has one. A mask in the specification's sense,
  one weight per pixel repeated in every channel, is of this kind as soon as one of its
  weights is not zero. \<open>all_zero\<close> is the mask without any.
\<close>

definition weight_mask :: "'f arith \<Rightarrow> 'f ndarray \<Rightarrow> bool" where
  "weight_mask A m =
     (case shape m of (h, w, c) \<Rightarrow>
        list_all (list_all (list_all (\<lambda>x. has_dtype A (dtype m) x \<and> nonneg A x))) (elems m) \<and>
        list_all (\<lambda>k. list_ex (\<lambda>x. \<not> is_zero A x) (channel (elems m) k)) [0..<c])"

definition per_pixel :: "'f ndarray \<Rightarrow> bool" where
  "per_pixel m =
     list_all (list_all (\<lambda>px. case px of [] \<Rightarrow> True | x # xs \<Rightarrow> list_all (\<lambda>y. y = x) xs))
       (elems m)"

definition nonzero_weight :: "'f arith \<Rightarrow> 'f ndarray \<Rightarrow> bool" where
  "nonzero_weight A m = list_ex (list_ex (list_ex (\<lambda>x. \<not> is_zero A x))) (elems m)"

definition all_zero :: "'f arith \<Rightarrow> 'f ndarray \<Rightarrow> bool" where
  "all_zero A m = list_all (list_all (list_all (is_zero A))) (elems m)"

text \<open>
  Two laws of floating-point sums that the results below rest on, both true of IEEE
  arithmetic in any order of summation. A sum of values that are not negative is at
  least as large as each of them, rounding being monotone: when the values are of an
  element type that the accumulator's type holds exactly and one of them is not zero, the
  sum is not zero. And a sum of zeros is zero.
\<close>

definition float_sum_laws :: "'f arith \<Rightarrow> bool" where
  "float_sum_laws A =
     ((\<forall>tw t xs. promote tw t = t \<and> (\<forall>x\<in>set xs. has_dtype A tw x \<and> nonneg A x) \<and>
                  (\<exists>x\<in>set xs. \<not> is_zero A x) \<longrightarrow> \<not> is_zero A (np_sum A t xs)) \<and>
      (\<forall>t xs. (\<forall>x\<in>set xs. is_zero A x) \<longrightarrow> is_zero A (np_sum A t xs)))"

text \<open>
  \<open>rect h w c d\<close>: the nested list \<open>d\<close> has \<open>h\<close> rows of \<open>w\<close> pixels of \<open>c\<close> channels,
  stated by index.
\<close>

definition rect :: "nat \<Rightarrow> nat \<Rightarrow> nat \<Rightarrow> 'f list list list \<Rightarrow> bool" where
  "rect h w c d =
     (length d = h \<and> (\<forall>i<h. length (d ! i) = w \<and> (\<forall>j<w. length (d ! i ! j) = c)))"

text \<open>
  The arithmetic without rounding, on the real numbers. It satisfies both laws, and
  the machine's arithmetic agrees with it wherever the machine does not round, as on
  the small whole numbers of the examples below. \<open>float32_array\<close> and \<open>uint8_array\<close>
  write an array the way \<^verbatim>\<open>np.array(d, dtype=np.float32)\<close> would build it.
\<close>

definition exact_arith :: "real arith" where
  "exact_arith =
     \<lparr> np_add = (\<lambda>t x y. x + y), np_subtract = (\<lambda>t x y. x - y),
       np_multiply = (\<lambda>t x y. x * y), np_divide = (\<lambda>t x y. x / y),
       np_sum = (\<lambda>t xs. sum_list xs), is_zero = (\<lambda>x. x = 0), nonneg = (\<lambda>x. 0 \<le> x),
       has_dtype = (\<lambda>t x. True) \<rparr>"

abbreviation float32_array :: "nat \<times> nat \<times> nat \<Rightarrow> 'f list list list \<Rightarrow> 'f ndarray" where
  "float32_array s d \<equiv> \<lparr> shape = s, dtype = Float32, elems = d \<rparr>"


text \<open>
  \<open>sums_nonzero A t m\<close>: none of the channel sums of the weights \<open>m\<close>, taken in the
  element type \<open>t\<close>, compares equal to zero; it is the test that \<^verbatim>\<open>np.average\<close> makes.
\<close>

definition sums_nonzero :: "'f arith \<Rightarrow> dtype \<Rightarrow> 'f ndarray \<Rightarrow> bool" where
  "sums_nonzero A t m =
     (case shape m of (h, w, c) \<Rightarrow>
        list_all (\<lambda>k. \<not> is_zero A (chan_sum A t (elems m) k)) [0..<c])"

section \<open>Configuration registry: plugins/train/\_config.py\<close>

subsection \<open>Options, sections and the registry\<close>

text \<open>
  A Python value of the kinds that options and resolved configurations hold. The
  \<^verbatim>\<open>datatype\<close> argument of \<^verbatim>\<open>add_item\<close> is a Python type object; the registry
  supports four. An option keeps what \<^verbatim>\<open>add_item\<close> was given: an optional argument
  that the call leaves out is \<open>None\<close>. Sections and options are kept in registration
  order, as association lists.
\<close>

datatype pyval = PNone | PBool bool | PStr string | PInt int | PFloat real

datatype py_type = TBool | TStr | TFloat | TInt | TOther string

record config_item =
  item_datatype :: py_type
  item_default :: pyval
  item_info :: string
  item_min_max :: "(real \<times> real) option"
  item_rounding :: "int option"
  item_fixed :: "bool option"
  item_choices :: "string list option"

record config_section =
  section_info :: string
  section_items :: "(string \<times> config_item) list"

type_synonym registry = "(string \<times> config_section) list"

text \<open>
  The methods of the registry change \<^verbatim>\<open>self\<close> in place, and nothing undoes a change
  when a later statement raises. So a call either returns, with the registry as it is
  then (\<open>Inr\<close>), or raises, with the exception and the registry as the raise leaves it
  (\<open>Inl\<close>). A call that raises ends the calls that would follow it.
\<close>

type_synonym failure = "py_error \<times> registry"

definition and_then :: "'e + 'a \<Rightarrow> ('a \<Rightarrow> 'e + 'b) \<Rightarrow> 'e + 'b" where
  "and_then r f = (case r of Inl e \<Rightarrow> Inl e | Inr x \<Rightarrow> f x)"

text \<open>
  Modelled from the spec: \<^verbatim>\<open>add_section\<close> and \<^verbatim>\<open>add_item\<close>, methods of the base class
  \<^verbatim>\<open>FaceswapConfig\<close>, which is not among the sources. The specification gives their
  failures: \<^verbatim>\<open>add_section(title, info)\<close> fails if the title already exists in the
  registry; \<^verbatim>\<open>add_item\<close> fails if the section is unknown, the title already exists in
  that section, or the datatype is unsupported. Otherwise they append. A failing call
  has changed nothing.
\<close>

definition add_section :: "string \<Rightarrow> string \<Rightarrow> registry \<Rightarrow> failure + registry" where
  "add_section title info reg =
     (if title \<in> set (map fst reg) then Inl (ValueError title, reg)
      else Inr (reg @ [(title, \<lparr> section_info = info, section_items = [] \<rparr>)]))"

definition supported :: "py_type \<Rightarrow> bool" where
  "supported t = (t = TBool \<or> t = TStr \<or> t = TFloat \<or> t = TInt)"

definition add_item :: "string \<Rightarrow> string \<Rightarrow> config_item \<Rightarrow> registry \<Rightarrow> failure + registry" where
  "add_item section title item reg =
     (case map_of reg section of
        None \<Rightarrow> Inl (ValueError section, reg)
      | Some sec \<Rightarrow>
          if title \<in> set (map fst (section_items sec)) then Inl (ValueError title, reg)
          else if \<not> supported (item_datatype item) then Inl (ValueError title, reg)
          else Inr (map (\<lambda>(t, s). if t = section
                                   then (t, s\<lparr> section_items := section_items s @ [(title, item)] \<rparr>)
                                   else (t, s)) reg))"

text \<open>An option with the required arguments only, to be extended with the optional ones.\<close>

definition new_item :: "py_type \<Rightarrow> pyval \<Rightarrow> string \<Rightarrow> config_item" where
  "new_item t d i =
     \<lparr> item_datatype = t, item_default = d, item_info = i, item_min_max = None,
       item_rounding = None, item_fixed = None, item_choices = None \<rparr>"

subsection \<open>The help texts of the global options\<close>

definition ADDITIONAL_INFO :: string where
  "ADDITIONAL_INFO =
     ''\<newline>'' @
     ''NB: Unless specifically stated, values changed here will only take effect when creating a new model.''"

definition info_icnr_init :: string where
  "info_icnr_init =
     ''\<newline>'' @
     ''Use ICNR to tile the default initializer in a repeating pattern. \<newline>'' @
     ''This strategy is designed for pairing with sub-pixel / pixel shuffler \<newline>'' @
     ''to reduce the 'checkerboard effect' in image reconstruction. \<newline>'' @
     ''https://arxiv.org/ftp/arxiv/papers/1707/1707.02937.pdf \<newline>''"

definition info_conv_aware_init :: string where
  "info_conv_aware_init =
     ''Use Convolution Aware Initialization for convolutional layers. \<newline>'' @
     ''This can help eradicate the vanishing and exploding gradient problem \<newline>'' @
     ''as well as lead to higher accuracy, lower loss and faster convergence. \<newline>'' @
     ''NB This can use more VRAM when creating a new model so you may want to \<newline>'' @
     ''lower the batch size for the first run. The batch size can be raised \<newline>'' @
     ''again when reloading the model. \<newline>'' @
     ''NB: Building the model will likely take several minutes as the calculations \<newline>'' @
     ''for this initialization technique are expensive. \<newline>''"

definition info_subpixel_upscaling :: string where
  "info_subpixel_upscaling =
     ''\<newline>'' @
     ''Use subpixel upscaling rather than pixel shuffler. These techniques \<newline>'' @
     ''are both designed to produce better resolving upscaling than other \<newline>'' @
     ''methods. Each perform the same operations, but using different TF opts.\<newline>'' @
     ''https://arxiv.org/pdf/1609.05158.pdf \<newline>''"

definition info_reflect_padding :: string where
  "info_reflect_padding =
     ''\<newline>'' @
     ''Use reflection padding rather than zero padding with convolutions. \<newline>'' @
     ''Each convolution must pad the image boundaries to maintain the proper \<newline>'' @
     ''sizing. More complex padding schemes can reduce artifacts at the \<newline>'' @
     ''border of the image.\<newline>'' @
     ''http://www-cs.engr.ccny.cuny.edu/~wolberg/cs470/hw/hw2_pad.txt \<newline>''"

definition info_penalized_mask_loss :: string where
  "info_penalized_mask_loss =
     ''\<newline>'' @
     ''Image loss function is weighted by mask presence. For areas of \<newline>'' @
     ''the image without the facial mask, reconstuction errors will be \<newline>'' @
     ''ignored while the masked face area is prioritized. May increase \<newline>'' @
     ''overall quality by focusing attention on the core face area.\<newline>''"

definition info_image_loss_function :: string where
  "info_image_loss_function =
     ''\<newline>'' @
     ''Mean_Absolute_Error ---\<newline>'' @
     ''MAE will guide reconstructions of each pixel towards its median \<newline>'' @
     ''value in the training dataset. Robust to outliers but as a median, \<newline>'' @
     ''it can potentially ignore some infrequent image types in the dataset. \<newline>'' @
     ''\<newline>'' @
     ''Mean_Squared_Error ---\<newline>'' @
     ''MSE will guide reconstructions of each pixel towards its average \<newline>'' @
     ''value in the training dataset. As an avg, it will be suspectible to \<newline>'' @
     ''outliers and typically produces slightly blurrier results. \<newline>'' @
     ''\<newline>'' @
     ''LogCosh ---\<newline>'' @
     ''log(cosh(x)) acts similiar to MSE for small errors and to MAE for large \<newline>'' @
     ''errors. Like MSE, it is very stable and prevents overshoots when errors \<newline>'' @
     ''are near zero. Like MAE, it is robust to outliers. \<newline>'' @
     ''\<newline>'' @
     ''Smooth_L1 ---\<newline>'' @
     ''Modification of the MAE loss to correct two of its disadvantages. \<newline>'' @
     ''This loss has improved stability and better guidance for small errors. \<newline>'' @
     ''\<newline>'' @
     ''L_inf_norm ---\<newline>'' @
     ''The L_inf norm will reduce the largest individual pixel error in an image. \<newline>'' @
     ''As each largest error is minimized sequentially, the overall error is \<newline>'' @
     ''improved. This loss will be extremely focused on outliers. \<newline>'' @
     ''\<newline>'' @
     ''SSIM - Structural Similarity Index Metric ---\<newline>'' @
     ''SSIM is a perception-based loss that considers changes in texture, \<newline>'' @
     ''luminance, contrast, and local spatial statistics of an image. \<newline>'' @
     ''Potentially better textural, and realistic looking images. \<newline>'' @
     ''\<newline>'' @
     ''GMSD - Gradient Magnitude Similarity Deviation ---\<newline>'' @
     ''GMSD seeks to match the differences between pixel color changes \<newline>'' @
     ''when moving from pixel to pixel in an image. Corresponding pixels in \<newline>'' @
     ''two images will have a difference with their neighboring pixels. \<newline>'' @
     ''The global standard deviation of the pixel to pixel differences for \<newline>'' @
     ''each image is calculated and the differnece in this metric is minimized. \<newline>'' @
     ''\<newline>'' @
     ''Pixel_Gradient_Difference ---\<newline>'' @
     ''Instead of minimizing the difference between the absolute value of \<newline>'' @
     ''each pixel in two reference images, compute the pixel to pixel \<newline>'' @
     ''spatial difference in each image and then minimize that difference \<newline>'' @
     ''between two images. Allows for large color shifts,but maintains the \<newline>'' @
     ''structure of the image.\<newline>''"

definition info_mask_type :: string where
  "info_mask_type =
     ''The mask to be used for training:\<newline>'' @
     [CHR 0x09] @
     '' none: Doesn't use any mask.\<newline>'' @
     [CHR 0x09] @
     '' components: An improved face hull mask using a facehull of 8 facial parts\<newline>'' @
     [CHR 0x09] @
     '' dfl_full: An improved face hull mask using a facehull of 3 facial parts\<newline>'' @
     [CHR 0x09] @
     '' extended: Based on components mask. Extends the eyebrow points to further up the forehead. May perform badly on difficult angles.\<newline>'' @
     [CHR 0x09] @
     '' facehull: Face cutout based on landmarks''"

definition info_learning_rate :: string where
  "info_learning_rate =
     ''Learning rate - how fast your network will learn (how large are \<newline>'' @
     ''the modifications to the model weights after one batch of training).\<newline>'' @
     ''Values that are too large might result in model crashes and the \<newline>'' @
     ''inability of the model to find the best solution.\<newline>'' @
     ''Values that are too small might be unable to escape from dead-ends \<newline>'' @
     ''and find the best global minimum.''"

definition info_coverage :: string where
  "info_coverage =
     ''How much of the extracted image to train on. Generally the model is optimized\<newline>'' @
     ''to the default value. Sensible values to use are:\<newline>'' @
     [CHR 0x09] @
     ''62.5%% spans from eyebrow to eyebrow.\<newline>'' @
     [CHR 0x09] @
     ''75.0%% spans from temple to temple.\<newline>'' @
     [CHR 0x09] @
     ''87.5%% spans from ear to ear.\<newline>'' @
     [CHR 0x09] @
     ''100.0%% is a mugshot.''"

subsection \<open>Config.set\_globals\<close>

text \<open>
  The global section and its nine options, in the order of the source. The choices of
  \<^verbatim>\<open>mask_type\<close> are what \<^verbatim>\<open>get_available_masks()\<close> returns, a function of another
  module that is not among the sources: a parameter here.
\<close>

definition set_globals :: "string list \<Rightarrow> registry \<Rightarrow> failure + registry" where
  "set_globals available_masks reg =
     (let section = ''global'' in
      and_then (add_section section (''Options that apply to all models'' @ ADDITIONAL_INFO) reg)
      (\<lambda>reg. and_then (add_item section ''icnr_init''
          (new_item TBool (PBool False) info_icnr_init) reg)
      (\<lambda>reg. and_then (add_item section ''conv_aware_init''
          (new_item TBool (PBool False) info_conv_aware_init) reg)
      (\<lambda>reg. and_then (add_item section ''subpixel_upscaling''
          (new_item TBool (PBool False) info_subpixel_upscaling) reg)
      (\<lambda>reg. and_then (add_item section ''reflect_padding''
          (new_item TBool (PBool False) info_reflect_padding) reg)
      (\<lambda>reg. and_then (add_item section ''penalized_mask_loss''
          (new_item TBool (PBool True) info_penalized_mask_loss) reg)
      (\<lambda>reg. and_then (add_item section ''image_loss_function''
          ((new_item TStr (PStr ''Mean_Absolute_Error'') info_image_loss_function)
            \<lparr> item_choices := Some [''Mean_Absolute_Error'', ''Mean_Squared_Error'', ''LogCosh'',
                  ''Smooth_L1'', ''L_inf_norm'', ''SSIM'', ''GMSD'',
                  ''Pixel_Gradient_Difference''] \<rparr>) reg)
      (\<lambda>reg. and_then (add_item section ''mask_type''
          ((new_item TStr (PStr ''none'') info_mask_type)
            \<lparr> item_choices := Some available_masks \<rparr>) reg)
      (\<lambda>reg. and_then (add_item section ''learning_rate''
          ((new_item TFloat (PFloat 0.00005) info_learning_rate)
            \<lparr> item_min_max := Some (0.000001, 0.0001), item_rounding := Some 6,
              item_fixed := Some False \<rparr>) reg)
      (\<lambda>reg. add_item section ''coverage''
          ((new_item TFloat (PFloat 68.75) info_coverage)
            \<lparr> item_min_max := Some (62.5, 100.0), item_fixed := Some True \<rparr>) reg))))))))))"

subsection \<open>Strings and paths\<close>

text \<open>\<^verbatim>\<open>s.endswith(suffix)\<close>\<close>

definition endswith :: "string \<Rightarrow> string \<Rightarrow> bool" where
  "endswith s suf = (length suf \<le> length s \<and> drop (length s - length suf) s = suf)"

text \<open>
  \<^verbatim>\<open>s.startswith(pre)\<close>, and \<^verbatim>\<open>s.replace(old, new)\<close>: scanning from the left,
  every occurrence of \<open>old\<close> that does not overlap an earlier one is replaced, and the
  scan goes on behind it. An empty \<open>old\<close> matches before every character and at the end.
\<close>

definition startswith :: "string \<Rightarrow> string \<Rightarrow> bool" where
  "startswith s pre = (take (length pre) s = pre)"

function replace_nonempty :: "string \<Rightarrow> string \<Rightarrow> string \<Rightarrow> string" where
  "replace_nonempty old new s =
     (if s = [] then []
      else if old \<noteq> [] \<and> startswith s old
           then new @ replace_nonempty old new (drop (length old) s)
           else hd s # replace_nonempty old new (tl s))"
  by pat_completeness auto
termination
  by (relation "measure (\<lambda>(old, new, s). length s)") auto

declare replace_nonempty.simps [simp del]

definition replace :: "string \<Rightarrow> string \<Rightarrow> string \<Rightarrow> string" where
  "replace s old new =
     (if old = [] then new @ concat (map (\<lambda>c. c # new) s) else replace_nonempty old new s)"

text \<open>\<^verbatim>\<open>sep.join(parts)\<close>\<close>

fun join :: "string \<Rightarrow> string list \<Rightarrow> string" where
  "join sep [] = []"
| "join sep [p] = p"
| "join sep (p # q # ps) = p @ sep @ join sep (q # ps)"

text \<open>
  \<^verbatim>\<open>s.split(c)\<close> for a separator of one character: the pieces between the separators,
  at least one piece.
\<close>

fun split :: "string \<Rightarrow> char \<Rightarrow> string list" where
  "split [] c = [[]]"
| "split (x # s) c =
     (if x = c then [] # split s c
      else case split s c of p # ps \<Rightarrow> (x # p) # ps | [] \<Rightarrow> [[x]])"

text \<open>
  \<^verbatim>\<open>s.rfind(c)\<close>: the index of the last \<open>c\<close>, or -1. \<^verbatim>\<open>os.path.splitext(p)\<close> (posixpath):
  the path is cut before its last dot when that dot stands behind the last slash and
  some character between the two is not a dot.
\<close>

definition rfind :: "string \<Rightarrow> char \<Rightarrow> int" where
  "rfind s c = int (length (dropWhile (\<lambda>x. x \<noteq> c) (rev s))) - 1"

definition splitext :: "string \<Rightarrow> string \<times> string" where
  "splitext p =
     (let sepIndex = rfind p (CHR ''/'');
          dotIndex = rfind p (CHR ''.'')
      in if dotIndex > sepIndex \<and>
            list_ex (\<lambda>x. x \<noteq> CHR ''.'') (take (nat (dotIndex - (sepIndex + 1))) (drop (nat (sepIndex + 1)) p))
         then (take (nat dotIndex) p, drop (nat dotIndex) p)
         else (p, []))"

subsection \<open>Config.load\_module and Config.set\_defaults\<close>

text \<open>
  What the code reads from outside: the directory walk \<^verbatim>\<open>os.walk(current_dir)\<close> as the
  list of (dirpath, filenames) in walk order, the directory of the running script, the
  function \<^verbatim>\<open>full_path_split\<close> of another module (not among the sources), the modules
  that \<^verbatim>\<open>import_module\<close> can load, by dotted name, and the available masks. A module
  has the attribute \<^verbatim>\<open>_HELPTEXT\<close> or not, and the attribute \<^verbatim>\<open>_DEFAULTS\<close> (a dictionary
  from option key to the keyword arguments of \<^verbatim>\<open>add_item\<close>) or not.
\<close>

record py_module =
  HELPTEXT :: "string option"
  DEFAULTS :: "(string \<times> config_item) list option"

record env =
  walk :: "(string \<times> string list) list"
  base_path :: string
  full_path_split :: "string \<Rightarrow> string list"
  modules :: "string \<rightharpoonup> py_module"
  available_masks :: "string list"

text \<open>
  \<^verbatim>\<open>
  module = os.path.splitext(filename)[0]
  section = ".".join((plugin_type, module.replace("_defaults", "")))
  \<close>
\<close>

definition section_title :: "string \<Rightarrow> string \<Rightarrow> string" where
  "section_title plugin_type filename =
     (let module = fst (splitext filename)
      in join ''.'' [plugin_type, replace module ''_defaults'' ''''])"

text \<open>\<^verbatim>\<open>for key, val in mod._DEFAULTS.items(): self.add_item(section=section, title=key, **val)\<close>\<close>

fun add_items :: "string \<Rightarrow> (string \<times> config_item) list \<Rightarrow> registry \<Rightarrow> failure + registry" where
  "add_items section [] reg = Inr reg"
| "add_items section ((key, val) # rest) reg =
     and_then (add_item section key val reg) (add_items section rest)"

text \<open>
  \<^verbatim>\<open>
  mod = import_module("{}.{}".format(module_path, module))
  helptext = mod._HELPTEXT
  helptext += ADDITIONAL_INFO if module_path.endswith("model") else ""
  self.add_section(title=section, info=helptext)
  for key, val in mod._DEFAULTS.items():
      self.add_item(section=section, title=key, **val)
  \<close>
  A module that cannot be loaded raises \<^verbatim>\<open>ImportError\<close>, a missing attribute
  \<^verbatim>\<open>AttributeError\<close>; \<^verbatim>\<open>_DEFAULTS\<close> is read after the section has been added, so its
  \<^verbatim>\<open>AttributeError\<close> leaves the new section in the registry, without options.
\<close>

definition load_module :: "env \<Rightarrow> string \<Rightarrow> string \<Rightarrow> string \<Rightarrow> registry \<Rightarrow> failure + registry" where
  "load_module E filename module_path plugin_type reg =
     (let module = fst (splitext filename);
          section = section_title plugin_type filename
      in case modules E (module_path @ ''.'' @ module) of
           None \<Rightarrow> Inl (ImportError (module_path @ ''.'' @ module), reg)
         | Some modu \<Rightarrow>
             (case HELPTEXT modu of
                None \<Rightarrow> Inl (AttributeError ''_HELPTEXT'', reg)
              | Some helptext \<Rightarrow>
                  let helptext = helptext @ (if endswith module_path ''model''
                                             then ADDITIONAL_INFO else '''')
                  in and_then (add_section section helptext reg)
                       (\<lambda>reg. case DEFAULTS modu of
                                 None \<Rightarrow> Inl (AttributeError ''_DEFAULTS'', reg)
                               | Some defaults \<Rightarrow> add_items section defaults reg)))"

text \<open>
  \<^verbatim>\<open>
  self.set_globals()
  current_dir = os.path.dirname(__file__)
  for dirpath, _, filenames in os.walk(current_dir):
      default_files = [fname for fname in filenames if fname.endswith("_defaults.py")]
      if not default_files:
          continue
      base_path = os.path.dirname(os.path.realpath(sys.argv[0]))
      import_path = ".".join(full_path_split(dirpath.replace(base_path, ""))[1:])
      plugin_type = import_path.split(".")[-1]
      for filename in default_files:
          self.load_module(filename, import_path, plugin_type)
  \<close>
\<close>

fun load_files :: "env \<Rightarrow> string list \<Rightarrow> string \<Rightarrow> string \<Rightarrow> registry \<Rightarrow> failure + registry" where
  "load_files E [] import_path plugin_type reg = Inr reg"
| "load_files E (filename # rest) import_path plugin_type reg =
     and_then (load_module E filename import_path plugin_type reg)
       (load_files E rest import_path plugin_type)"

definition import_path_of :: "env \<Rightarrow> string \<Rightarrow> string" where
  "import_path_of E dirpath = join ''.'' (drop 1 (full_path_split E (replace dirpath (base_path E) '''')))"

definition plugin_type_of :: "string \<Rightarrow> string" where
  "plugin_type_of import_path = last (split import_path (CHR ''.''))"

definition default_files_of :: "string list \<Rightarrow> string list" where
  "default_files_of filenames = filter (\<lambda>fname. endswith fname ''_defaults.py'') filenames"

fun walk_dirs :: "env \<Rightarrow> (string \<times> string list) list \<Rightarrow> registry \<Rightarrow> failure + registry" where
  "walk_dirs E [] reg = Inr reg"
| "walk_dirs E ((dirpath, filenames) # rest) reg =
     (let default_files = default_files_of filenames
      in if default_files = [] then walk_dirs E rest reg
         else let import_path = import_path_of E dirpath;
                  plugin_type = plugin_type_of import_path
              in and_then (load_files E default_files import_path plugin_type reg)
                   (walk_dirs E rest))"

definition set_defaults :: "env \<Rightarrow> registry \<Rightarrow> failure + registry" where
  "set_defaults E reg =
     and_then (set_globals (available_masks E) reg) (walk_dirs E (walk E))"

subsection \<open>Discovery, as the specification describes it\<close>

text \<open>
  The defaults files of a plugin tree in walk order, each with the import path and the
  plugin type of its directory; the module a file names; when a module is malformed
  (it fails to load, or lacks the help text, or lacks the option mapping) and when it is
  well formed (it loads, has both, and \<^verbatim>\<open>add_item\<close> accepts every option definition: a
  dictionary has no key twice, and the datatypes are supported); the section that
  discovery is to create for a file; and discovery as one loop over the files.
\<close>

type_synonym defaults_file = "string \<times> string \<times> string"

definition defaults_files :: "env \<Rightarrow> defaults_file list" where
  "defaults_files E =
     concat (map (\<lambda>(dirpath, filenames).
                    map (\<lambda>filename. (filename, import_path_of E dirpath,
                                       plugin_type_of (import_path_of E dirpath)))
                        (default_files_of filenames))
                 (walk E))"

definition module_of :: "env \<Rightarrow> defaults_file \<Rightarrow> py_module option" where
  "module_of E f = (case f of (filename, module_path, plugin_type) \<Rightarrow>
     modules E (module_path @ ''.'' @ fst (splitext filename)))"


definition title_of :: "defaults_file \<Rightarrow> string" where
  "title_of f = (case f of (filename, module_path, plugin_type) \<Rightarrow> section_title plugin_type filename)"

definition accepted_options :: "(string \<times> config_item) list \<Rightarrow> bool" where
  "accepted_options ds = (distinct (map fst ds) \<and> list_all (\<lambda>(k, v). supported (item_datatype v)) ds)"

definition well_formed :: "env \<Rightarrow> defaults_file \<Rightarrow> bool" where
  "well_formed E f =
     (case module_of E f of
        None \<Rightarrow> False
      | Some m \<Rightarrow>
          (case (HELPTEXT m, DEFAULTS m) of
             (Some h, Some ds) \<Rightarrow> accepted_options ds
           | _ \<Rightarrow> False))"

definition expected_section :: "env \<Rightarrow> defaults_file \<Rightarrow> string \<times> config_section" where
  "expected_section E f = (case f of (filename, module_path, plugin_type) \<Rightarrow>
     (plugin_type @ ''.'' @ replace (fst (splitext filename)) ''_defaults'' '''',
      \<lparr> section_info =
          (case module_of E f of Some m \<Rightarrow> (case HELPTEXT m of Some h \<Rightarrow> h | None \<Rightarrow> []) | None \<Rightarrow> []) @
          (if endswith module_path ''model'' then ADDITIONAL_INFO else []),
        section_items =
          (case module_of E f of Some m \<Rightarrow> (case DEFAULTS m of Some ds \<Rightarrow> ds | None \<Rightarrow> []) | None \<Rightarrow> []) \<rparr>))"


fun load_all :: "env \<Rightarrow> defaults_file list \<Rightarrow> registry \<Rightarrow> failure + registry" where
  "load_all E [] reg = Inr reg"
| "load_all E ((filename, module_path, plugin_type) # rest) reg =
     and_then (load_module E filename module_path plugin_type reg) (load_all E rest)"


text \<open>
  A plugin tree to run discovery on: the package directory with no defaults file, a
  directory \<^verbatim>\<open>model\<close> with the given files, and a directory \<^verbatim>\<open>trainer\<close> with one
  defaults file whose module is well formed. Paths are split at the slash. The modules
  that can be imported are the trainer's and the given ones.
\<close>

definition example_env :: "string list \<Rightarrow> (string \<times> py_module) list \<Rightarrow> env" where
  "example_env filenames mods =
     \<lparr> walk = [(''/fs/faceswap/plugins/train'', [''_config.py'']),
               (''/fs/faceswap/plugins/train/model'', filenames),
               (''/fs/faceswap/plugins/train/trainer'', [''original_defaults.py''])],
       base_path = ''/fs/faceswap'',
       full_path_split = (\<lambda>path. split path (CHR ''/'')),
       modules = map_of ((''plugins.train.trainer.original_defaults'',
                          \<lparr> HELPTEXT = Some ''Trainer options'', DEFAULTS = Some [] \<rparr>) # mods),
       available_masks = [''none'', ''components''] \<rparr>"

definition example_module :: "string \<Rightarrow> py_module" where
  "example_module h =
     \<lparr> HELPTEXT = Some h,
       DEFAULTS = Some [(''lowmem'', new_item TBool (PBool False) ''Lower memory use'')] \<rparr>"

text \<open>
  Where an occurrence of \<open>old\<close> can begin: \<open>separable old p\<close> says that none begins
  inside \<open>p\<close> when \<open>p\<close> is followed by \<open>old\<close>, and \<open>free_of old q\<close> that none begins
  inside \<open>q\<close> when nothing follows.
\<close>

fun suffixes_nonempty :: "string \<Rightarrow> string list" where
  "suffixes_nonempty [] = []"
| "suffixes_nonempty (c # s) = (c # s) # suffixes_nonempty s"

definition separable :: "string \<Rightarrow> string \<Rightarrow> bool" where
  "separable old p = list_all (\<lambda>s. \<not> startswith (s @ old) old) (suffixes_nonempty p)"

definition free_of :: "string \<Rightarrow> string \<Rightarrow> bool" where
  "free_of old q = list_all (\<lambda>s. \<not> startswith s old) (suffixes_nonempty q)"

section \<open>Model composition: plugins/train/model/dfl\_h128.py\<close>

text \<open>
  The source file holds both sides of an unresolved merge. Where the two sides differ in
  behaviour (the decoder's outputs), both are modelled: the \<^verbatim>\<open>HEAD\<close> side under a name
  ending in \<open>_HEAD\<close>, the incoming side (\<^verbatim>\<open>60e0099\<close>) under the source's name. The
  method \<^verbatim>\<open>initialize\<close> exists on the \<^verbatim>\<open>HEAD\<close> side only.
\<close>

subsection \<open>Configuration values and Keras graphs\<close>

text \<open>
  A resolved configuration is a dictionary from option name to a Python value
  (\<open>pyval\<close>); \<open>truthy\<close> is Python's truth value of it, which \<^verbatim>\<open>if\<close> tests.
\<close>

fun truthy :: "pyval \<Rightarrow> bool" where
  "truthy PNone = False"
| "truthy (PBool b) = b"
| "truthy (PStr s) = (s \<noteq> [])"
| "truthy (PInt i) = (i \<noteq> 0)"
| "truthy (PFloat r) = (r \<noteq> 0)"

type_synonym config = "string \<rightharpoonup> pyval"

text \<open>\<^verbatim>\<open>config.get(key, None)\<close>\<close>

definition config_get :: "config \<Rightarrow> string \<Rightarrow> pyval" where
  "config_get cfg key = (case cfg key of None \<Rightarrow> PNone | Some v \<Rightarrow> v)"

text \<open>
  A symbolic tensor is the expression that built it: an input placeholder, or a layer
  applied to a tensor. \<open>ConvBlock\<close> and \<open>Upscale\<close> are the blocks \<^verbatim>\<open>conv\<close> and
  \<^verbatim>\<open>upscale\<close> of the network-block library, with their filter counts; \<open>Conv2D\<close> carries
  filters, kernel size, padding and activation. \<open>Apply r t\<close> is the call of the model
  object with identity \<open>r\<close> on \<open>t\<close>; it stands for all that the call returns, one
  tensor or a list of tensors, and \<open>Item k v\<close> is entry \<open>k\<close> of such a list.
\<close>

type_synonym ref = nat

datatype tensor =
    Input "nat list"
  | ConvBlock nat tensor
  | Upscale nat tensor
  | Flatten tensor
  | Dense nat tensor
  | Reshape "nat list" tensor
  | Conv2D nat nat string string tensor
  | Apply ref tensor
  | Item nat tensor

record keras_model =
  inputs :: "tensor list"
  outputs :: "tensor list"

text \<open>
  A sub-network object, as \<^verbatim>\<open>self.networks\<close> holds them: its identity (two entries
  hold the same object exactly when they hold the same \<open>ident\<close>) and its attribute
  \<^verbatim>\<open>network\<close>, the Keras model.
\<close>

record nn_meta =
  ident :: ref
  network :: keras_model

text \<open>
  The model object \<^verbatim>\<open>self\<close>: its resolved configuration, the two attributes that
  \<^verbatim>\<open>__init__\<close> passes on, the dictionary \<^verbatim>\<open>self.networks\<close> from name to sub-network
  object, the predictors and the mask inputs.
\<close>

record model =
  config :: config
  input_shape :: "nat list"
  encoder_dim :: nat
  networks :: "(string \<times> nn_meta) list"
  predictors :: "string \<rightharpoonup> keras_model"
  masks :: "tensor list"

subsection \<open>Model.\_\_init\_\_\<close>

text \<open>
  \<^verbatim>\<open>
  kwargs["input_shape"] = (128, 128, 3)
  kwargs["encoder_dim"] = 256 if self.config["lowmem"] else 512
  \<close>
  Subscripting the configuration raises \<^verbatim>\<open>KeyError\<close> when the option is missing.
\<close>

definition init_kwargs :: "config \<Rightarrow> py_error + (nat list \<times> nat)" where
  "init_kwargs cfg =
     (case cfg ''lowmem'' of
        None \<Rightarrow> Inl (KeyError ''lowmem'')
      | Some lowmem \<Rightarrow> Inr ([128, 128, 3], if truthy lowmem then 256 else 512))"

subsection \<open>Model.encoder and Model.decoder\<close>

text \<open>
  The encoder is the same graph on both sides of the merge (the sides differ only in how
  they reach the blocks): four \<^verbatim>\<open>conv\<close> blocks of 128, 256, 512 and 1024 filters, two
  dense layers, a reshape to (8, 8, encoder\_dim) and one \<^verbatim>\<open>upscale\<close> block.
\<close>

definition encoder :: "model \<Rightarrow> keras_model" where
  "encoder self =
     (let inp = Input (input_shape self);
          var_x = inp;
          var_x = ConvBlock 128 var_x;
          var_x = ConvBlock 256 var_x;
          var_x = ConvBlock 512 var_x;
          var_x = ConvBlock 1024 var_x;
          var_x = Dense (encoder_dim self) (Flatten var_x);
          var_x = Dense (8 * 8 * encoder_dim self) var_x;
          var_x = Reshape [8, 8, encoder_dim self] var_x;
          var_x = Upscale (encoder_dim self) var_x
      in \<lparr> inputs = [inp], outputs = [var_x] \<rparr>)"

text \<open>
  The decoder, incoming side of the merge: three \<^verbatim>\<open>upscale\<close> blocks, the face
  convolution, and the mask convolution only under
  \<^verbatim>\<open>if self.config.get("mask_type", None):\<close>
\<close>

definition decoder :: "model \<Rightarrow> keras_model" where
  "decoder self =
     (let inp = Input [16, 16, encoder_dim self];
          var = inp;
          var = Upscale (encoder_dim self) var;
          var = Upscale (encoder_dim self div 2) var;
          var = Upscale (encoder_dim self div 4) var;
          var_x = Conv2D 3 5 ''same'' ''sigmoid'' var;
          outputs = [var_x];
          outputs = (if truthy (config_get (config self) ''mask_type'')
                     then outputs @ [Conv2D 1 5 ''same'' ''sigmoid'' var]
                     else outputs)
      in \<lparr> inputs = [inp], outputs = outputs \<rparr>)"

text \<open>The decoder, \<^verbatim>\<open>HEAD\<close> side: the same blocks, and always both outputs.\<close>

definition decoder_HEAD :: "model \<Rightarrow> keras_model" where
  "decoder_HEAD self =
     (let inp = Input [16, 16, encoder_dim self];
          var = inp;
          var = Upscale (encoder_dim self) var;
          var = Upscale (encoder_dim self div 2) var;
          var = Upscale (encoder_dim self div 4) var;
          var_x = Conv2D 3 5 ''same'' ''sigmoid'' var;
          var_y = Conv2D 1 5 ''same'' ''sigmoid'' var
      in \<lparr> inputs = [inp], outputs = [var_x, var_y] \<rparr>)"

text \<open>
  What a graph is made of, read off the expression from the input outwards: the filter
  counts of its \<^verbatim>\<open>conv\<close> blocks (each halves the spatial size), of its \<^verbatim>\<open>upscale\<close>
  blocks (each doubles it), and of its plain convolutions.
\<close>

fun conv_filters :: "tensor \<Rightarrow> nat list" where
  "conv_filters (Input s) = []"
| "conv_filters (ConvBlock n t) = conv_filters t @ [n]"
| "conv_filters (Upscale n t) = conv_filters t"
| "conv_filters (Flatten t) = conv_filters t"
| "conv_filters (Dense n t) = conv_filters t"
| "conv_filters (Reshape s t) = conv_filters t"
| "conv_filters (Conv2D n k p a t) = conv_filters t"
| "conv_filters (Apply r t) = conv_filters t"
| "conv_filters (Item k t) = conv_filters t"

fun upscale_filters :: "tensor \<Rightarrow> nat list" where
  "upscale_filters (Input s) = []"
| "upscale_filters (ConvBlock n t) = upscale_filters t"
| "upscale_filters (Upscale n t) = upscale_filters t @ [n]"
| "upscale_filters (Flatten t) = upscale_filters t"
| "upscale_filters (Dense n t) = upscale_filters t"
| "upscale_filters (Reshape s t) = upscale_filters t"
| "upscale_filters (Conv2D n k p a t) = upscale_filters t"
| "upscale_filters (Apply r t) = upscale_filters t"
| "upscale_filters (Item k t) = upscale_filters t"

fun conv2d_filters :: "tensor \<Rightarrow> nat list" where
  "conv2d_filters (Input s) = []"
| "conv2d_filters (ConvBlock n t) = conv2d_filters t"
| "conv2d_filters (Upscale n t) = conv2d_filters t"
| "conv2d_filters (Flatten t) = conv2d_filters t"
| "conv2d_filters (Dense n t) = conv2d_filters t"
| "conv2d_filters (Reshape s t) = conv2d_filters t"
| "conv2d_filters (Conv2D n k p a t) = conv2d_filters t @ [n]"
| "conv2d_filters (Apply r t) = conv2d_filters t"
| "conv2d_filters (Item k t) = conv2d_filters t"

subsection \<open>Model.initialize\<close>

text \<open>
  Modelled from the spec: \<^verbatim>\<open>add_predictors\<close>, a method of the base class that is not
  among the sources. The specification has the model expose its two predictor graphs
  by identity slot; the model stores them under \<open>a\<close> and \<open>b\<close>.
\<close>

definition add_predictors :: "keras_model \<Rightarrow> keras_model \<Rightarrow> model \<Rightarrow> model" where
  "add_predictors ae_a ae_b self = self\<lparr> predictors := (predictors self)(''a'' \<mapsto> ae_a, ''b'' \<mapsto> ae_b) \<rparr>"

text \<open>
  \<^verbatim>\<open>
  mask_shape = self.input_shape[:2] + (1, )
  inp_a = Input(shape=self.input_shape)
  mask_a = Input(shape=mask_shape)
  inp_b = Input(shape=self.input_shape)
  mask_b = Input(shape=mask_shape)
  ae_a = KerasModel(
      [inp_a, mask_a],
      self.networks["decoder_a"].network(self.networks["encoder"].network(inp_a)))
  ae_b = KerasModel(
      [inp_b, mask_b],
      self.networks["decoder_b"].network(self.networks["encoder"].network(inp_b)))
  self.add_predictors(ae_a, ae_b)
  self.masks = [mask_a, mask_b]
  \<close>
  Each subscript of \<^verbatim>\<open>self.networks\<close> is a lookup of its own and raises \<^verbatim>\<open>KeyError\<close> on
  a missing name; Python evaluates the called decoder before the argument. The encoder
  is looked up twice, once per graph. Nothing in the method builds a sub-network: the
  calls of \<^verbatim>\<open>encoder()\<close> and \<^verbatim>\<open>decoder()\<close> that fill \<^verbatim>\<open>self.networks\<close> are made by the
  base class, which is not among the sources. A call of a sub-network returns one
  tensor when its model has one output and a list otherwise, and \<^verbatim>\<open>KerasModel\<close> takes
  either as its outputs (\<open>as_outputs\<close>).
\<close>

definition lookup_network :: "model \<Rightarrow> string \<Rightarrow> py_error + nn_meta" where
  "lookup_network self name =
     (case map_of (networks self) name of None \<Rightarrow> Inl (KeyError name) | Some m \<Rightarrow> Inr m)"

definition as_outputs :: "nn_meta \<Rightarrow> tensor \<Rightarrow> tensor list" where
  "as_outputs m v =
     (if length (outputs (network m)) = 1 then [v]
      else map (\<lambda>k. Item k v) [0..<length (outputs (network m))])"

definition initialize :: "model \<Rightarrow> py_error + model" where
  "initialize self =
     (let mask_shape = take 2 (input_shape self) @ [1];
          inp_a = Input (input_shape self);
          mask_a = Input mask_shape;
          inp_b = Input (input_shape self);
          mask_b = Input mask_shape
      in case lookup_network self ''decoder_a'' of Inl e \<Rightarrow> Inl e | Inr dec_a \<Rightarrow>
         case lookup_network self ''encoder'' of Inl e \<Rightarrow> Inl e | Inr enc_a \<Rightarrow>
         let ae_a = \<lparr> inputs = [inp_a, mask_a],
                      outputs = as_outputs dec_a (Apply (ident dec_a) (Apply (ident enc_a) inp_a)) \<rparr>
         in case lookup_network self ''decoder_b'' of Inl e \<Rightarrow> Inl e | Inr dec_b \<Rightarrow>
            case lookup_network self ''encoder'' of Inl e \<Rightarrow> Inl e | Inr enc_b \<Rightarrow>
            let ae_b = \<lparr> inputs = [inp_b, mask_b],
                         outputs = as_outputs dec_b (Apply (ident dec_b) (Apply (ident enc_b) inp_b)) \<rparr>
            in Inr ((add_predictors ae_a ae_b self)\<lparr> masks := [mask_a, mask_b] \<rparr>))"

text \<open>
  The sub-network objects a tensor is computed by, from the input outwards: in a
  predictor graph the first is the encoder and the second the decoder. \<open>registered\<close>
  are the objects that \<^verbatim>\<open>self.networks\<close> holds, \<open>graph_calls\<close> those that the two
  predictor graphs call, and \<open>built_during self self'\<close> those that \<open>self'\<close> holds or
  calls and that \<open>self\<close> did not hold: the sub-networks that came into being between
  the two.
\<close>

fun called :: "tensor \<Rightarrow> ref list" where
  "called (Input s) = []"
| "called (ConvBlock n t) = called t"
| "called (Upscale n t) = called t"
| "called (Flatten t) = called t"
| "called (Dense n t) = called t"
| "called (Reshape s t) = called t"
| "called (Conv2D n k p a t) = called t"
| "called (Apply r t) = called t @ [r]"
| "called (Item k t) = called t"

definition registered :: "model \<Rightarrow> ref list" where
  "registered self = map (ident \<circ> snd) (networks self)"

definition graph_calls :: "model \<Rightarrow> ref list" where
  "graph_calls self =
     concat (map (\<lambda>side. case predictors self side of
                            None \<Rightarrow> []
                          | Some ae \<Rightarrow> concat (map called (outputs ae)))
                 [''a'', ''b''])"

definition built_during :: "model \<Rightarrow> model \<Rightarrow> ref list" where
  "built_during self self' =
     filter (\<lambda>r. r \<notin> set (registered self)) (remdups (registered self' @ graph_calls self'))"

text \<open>
  The stage schedules of a sub-network, read off its first output (every output of a
  decoder hangs off the same trunk): the filter counts of the down-sampling \<^verbatim>\<open>conv\<close>
  blocks and of the up-sampling \<^verbatim>\<open>upscale\<close> blocks. \<open>mirrors\<close> is the structural
  invariant in the specification's words: as many up-sampling stages in the decoder as
  down-sampling stages in the encoder, with the channel progression reversed.
\<close>

definition down_schedule :: "keras_model \<Rightarrow> nat list" where
  "down_schedule m = (case outputs m of [] \<Rightarrow> [] | t # _ \<Rightarrow> conv_filters t)"

definition up_schedule :: "keras_model \<Rightarrow> nat list" where
  "up_schedule m = (case outputs m of [] \<Rightarrow> [] | t # _ \<Rightarrow> upscale_filters t)"

definition mirrors :: "keras_model \<Rightarrow> keras_model \<Rightarrow> bool" where
  "mirrors enc dec = (up_schedule dec = rev (down_schedule enc))"

text \<open>
  A model object as \<^verbatim>\<open>__init__\<close> leaves it for a configuration with the given
  \<^verbatim>\<open>lowmem\<close> and \<^verbatim>\<open>mask_type\<close>, first without sub-networks and then with three distinct
  objects registered: an encoder and two decoders, as \<open>encoder\<close> and \<open>decoder_HEAD\<close> (the
  side of the merge that has \<open>initialize\<close>) build them.
\<close>

abbreviation bare_model :: "bool \<Rightarrow> pyval \<Rightarrow> model" where
  "bare_model lowmem mask_type \<equiv>
     \<lparr> config = [''lowmem'' \<mapsto> PBool lowmem, ''mask_type'' \<mapsto> mask_type],
       input_shape = [128, 128, 3],
       encoder_dim = (if lowmem then 256 else 512),
       networks = [],
       predictors = Map.empty,
       masks = [] \<rparr>"

abbreviation example_model :: "bool \<Rightarrow> pyval \<Rightarrow> model" where
  "example_model lowmem mask_type \<equiv>
     (bare_model lowmem mask_type)
       \<lparr> networks :=
           [(''decoder_a'', \<lparr> ident = 1, network = decoder_HEAD (bare_model lowmem mask_type) \<rparr>),
            (''decoder_b'', \<lparr> ident = 2, network = decoder_HEAD (bare_model lowmem mask_type) \<rparr>),
            (''encoder'', \<lparr> ident = 0, network = encoder (bare_model lowmem mask_type) \<rparr>)] \<rparr>"

section \<open>Colour adjustment: properties\<close>

lemma well_shaped_rect: "well_shaped a \<Longrightarrow> shape a = (h, w, c) \<Longrightarrow> rect h w c (elems a)"
  by (auto simp: well_shaped_def rect_def list_all_length)

lemma rect_well_shaped: "rect h w c (elems a) \<Longrightarrow> shape a = (h, w, c) \<Longrightarrow> well_shaped a"
  by (auto simp: well_shaped_def rect_def list_all_length)

lemma map_upt_nth: "map (\<lambda>i. f (xs ! i)) [0..<length xs] = map f xs"
  by (rule nth_equalityI) simp_all

lemma channel_index:
  assumes "rect h w c d"
  shows "channel d k = concat (map (\<lambda>i. map (\<lambda>j. d ! i ! j ! k) [0..<w]) [0..<h])"
proof -
  have rows: "map (\<lambda>px. px ! k) (d ! i) = map (\<lambda>j. d ! i ! j ! k) [0..<w]" if "i < h" for i
    using assms that map_upt_nth[of "\<lambda>px. px ! k" "d ! i"] by (simp add: rect_def)
  have "map (map (\<lambda>px. px ! k)) d = map (\<lambda>i. map (\<lambda>px. px ! k) (d ! i)) [0..<length d]"
    using map_upt_nth[of "map (\<lambda>px. px ! k)" d] by simp
  also have "\<dots> = map (\<lambda>i. map (\<lambda>j. d ! i ! j ! k) [0..<w]) [0..<h]"
    using assms rows by (simp add: rect_def)
  finally show ?thesis by (simp add: channel_def)
qed

lemma multiply_rect:
  assumes "rect h w c a" "rect h w c m"
  shows "rect h w c (multiply A t a m)"
  using assms by (auto simp: rect_def multiply_def)

lemma multiply_index:
  assumes "rect h w c a" "rect h w c m" "i < h" "j < w" "k < c"
  shows "multiply A t a m ! i ! j ! k = np_multiply A t (a ! i ! j ! k) (m ! i ! j ! k)"
  using assms by (auto simp: rect_def multiply_def)

lemma broadcast_add_rect:
  assumes "rect h w c a" "length v = c"
  shows "rect h w c (broadcast_add A t a v)"
  using assms by (auto simp: rect_def broadcast_add_def)

lemma broadcast_add_index:
  assumes "rect h w c a" "length v = c" "i < h" "j < w" "k < c"
  shows "broadcast_add A t a v ! i ! j ! k = np_add A t (a ! i ! j ! k) (v ! k)"
  using assms by (auto simp: rect_def broadcast_add_def)

lemma np_average_ok:
  assumes "shape a = (h, w, c)" "shape m = (h, w, c)"
    and "sums_nonzero A (average_dtype (dtype a) (dtype m)) m"
  shows "np_average A a m =
     Inr (average_dtype (dtype a) (dtype m),
          map (\<lambda>k. np_divide A (average_dtype (dtype a) (dtype m))
                      (chan_sum A (average_dtype (dtype a) (dtype m))
                         (multiply A (average_dtype (dtype a) (dtype m)) (elems a) (elems m)) k)
                      (chan_sum A (average_dtype (dtype a) (dtype m)) (elems m) k)) [0..<c])"
  using assms
  by (auto simp: np_average_def sums_nonzero_def list_ex_iff list_all_iff Let_def)

lemma np_average_zero:
  assumes "shape a = (h, w, c)" "shape m = (h, w, c)"
    and "\<not> sums_nonzero A (average_dtype (dtype a) (dtype m)) m"
  shows "np_average A a m = Inl ZeroDivisionError"
  using assms
  by (auto simp: np_average_def sums_nonzero_def list_ex_iff list_all_iff Let_def)

lemma weighted_mean_code:
  assumes "well_shaped a" "well_shaped m" "shape a = (h, w, c)" "shape m = (h, w, c)" "k < c"
  shows "np_divide A t (chan_sum A t (multiply A t (elems a) (elems m)) k)
           (chan_sum A t (elems m) k) = weighted_mean A t a m k"
proof -
  have ra: "rect h w c (elems a)" and rm: "rect h w c (elems m)"
    using assms by (auto intro: well_shaped_rect)
  have "channel (multiply A t (elems a) (elems m)) k =
        concat (map (\<lambda>i. map (\<lambda>j. np_multiply A t (elems a ! i ! j ! k) (elems m ! i ! j ! k))
                               [0..<w]) [0..<h])"
    unfolding channel_index[OF multiply_rect[OF ra rm]]
    using multiply_index[OF ra rm] assms(5)
    by (intro arg_cong[where f = concat] map_cong refl) simp
  moreover have "channel (elems m) k =
        concat (map (\<lambda>i. map (\<lambda>j. elems m ! i ! j ! k) [0..<w]) [0..<h])"
    using rm by (rule channel_index)
  ultimately show ?thesis using assms(3) by (simp add: weighted_mean_def chan_sum_def)
qed

lemma promote_average_dtype: "promote tw (average_dtype ta tw) = average_dtype ta tw"
  by (cases ta; cases tw) (simp_all add: average_dtype_def)

lemma channel_set:
  assumes "rect h w c d" "k < c"
  shows "set (channel d k) \<subseteq> (\<Union>row\<in>set d. \<Union>px\<in>set row. set px)"
proof
  fix x assume "x \<in> set (channel d k)"
  then obtain row px where "row \<in> set d" "px \<in> set row" "x = px ! k"
    by (auto simp: channel_def)
  moreover have "length px = c"
    using assms(1) \<open>row \<in> set d\<close> \<open>px \<in> set row\<close>
    by (auto simp: rect_def in_set_conv_nth)
  ultimately show "x \<in> (\<Union>row\<in>set d. \<Union>px\<in>set row. set px)"
    using assms(2) by (auto intro!: bexI[of _ row] bexI[of _ px])
qed

lemma weight_mask_sums_nonzero:
  assumes "float_sum_laws A" "well_shaped m" "weight_mask A m"
  shows "sums_nonzero A (average_dtype ta (dtype m)) m"
proof -
  obtain h w c where s: "shape m = (h, w, c)" by (cases "shape m") auto
  have r: "rect h w c (elems m)" using assms(2) s by (rule well_shaped_rect)
  have "\<not> is_zero A (np_sum A (average_dtype ta (dtype m)) (channel (elems m) k))" if "k < c" for k
  proof -
    have "\<forall>x\<in>set (channel (elems m) k). has_dtype A (dtype m) x \<and> nonneg A x"
      using channel_set[OF r that] assms(3) s
      by (fastforce simp: weight_mask_def list_all_iff)
    moreover have "\<exists>x\<in>set (channel (elems m) k). \<not> is_zero A x"
      using assms(3) s that by (auto simp: weight_mask_def list_all_iff list_ex_iff)
    ultimately show ?thesis
      using assms(1) promote_average_dtype[of "dtype m" ta]
      unfolding float_sum_laws_def by blast
  qed
  then show ?thesis using s by (simp add: sums_nonzero_def chan_sum_def list_all_iff)
qed

lemma all_zero_sums:
  assumes "float_sum_laws A" "well_shaped m" "all_zero A m" "shape m = (h, w, c)" "0 < c"
  shows "\<not> sums_nonzero A t m"
proof -
  have r: "rect h w c (elems m)" using assms(2,4) by (rule well_shaped_rect)
  have "\<forall>x\<in>set (channel (elems m) 0). is_zero A x"
    using channel_set[OF r assms(5)] assms(3)
    by (fastforce simp: all_zero_def list_all_iff)
  then have "is_zero A (np_sum A t (channel (elems m) 0))"
    using assms(1) unfolding float_sum_laws_def by blast
  then show ?thesis
    using assms(4,5) by (auto simp: sums_nonzero_def chan_sum_def list_all_iff)
qed

lemma float_sum_laws_exact: "float_sum_laws exact_arith"
proof -
  have "sum_list xs \<noteq> 0" if "\<forall>x\<in>set xs. (0::real) \<le> x" "\<exists>x\<in>set xs. x \<noteq> 0" for xs
    using that by (simp add: sum_list_nonneg_eq_0_iff)
  moreover have "sum_list xs = 0" if "\<forall>x\<in>set xs. x = (0::real)" for xs
    using that by (induction xs) auto
  ultimately show ?thesis
    by (simp add: float_sum_laws_def exact_arith_def)
qed

lemma process_ok:
  assumes "shape old_face = (h, w, c)" "shape new_face = (h, w, c)" "shape raw_mask = (h, w, c)"
    and "sums_nonzero A (average_dtype (dtype old_face) (dtype raw_mask)) raw_mask"
    and "sums_nonzero A (average_dtype (dtype new_face) (dtype raw_mask)) raw_mask"
  shows "process A old_face new_face raw_mask =
     Inr \<lparr> shape = (h, w, c),
           dtype = promote (dtype new_face)
                     (promote (average_dtype (dtype old_face) (dtype raw_mask))
                              (average_dtype (dtype new_face) (dtype raw_mask))),
           elems = broadcast_add A
                     (promote (dtype new_face)
                        (promote (average_dtype (dtype old_face) (dtype raw_mask))
                                 (average_dtype (dtype new_face) (dtype raw_mask))))
                     (elems new_face)
                     (map2 (np_subtract A (promote (average_dtype (dtype old_face) (dtype raw_mask))
                                                   (average_dtype (dtype new_face) (dtype raw_mask))))
                        (map (\<lambda>k. np_divide A (average_dtype (dtype old_face) (dtype raw_mask))
                                  (chan_sum A (average_dtype (dtype old_face) (dtype raw_mask))
                                     (multiply A (average_dtype (dtype old_face) (dtype raw_mask))
                                        (elems old_face) (elems raw_mask)) k)
                                  (chan_sum A (average_dtype (dtype old_face) (dtype raw_mask))
                                     (elems raw_mask) k)) [0..<c])
                        (map (\<lambda>k. np_divide A (average_dtype (dtype new_face) (dtype raw_mask))
                                  (chan_sum A (average_dtype (dtype new_face) (dtype raw_mask))
                                     (multiply A (average_dtype (dtype new_face) (dtype raw_mask))
                                        (elems new_face) (elems raw_mask)) k)
                                  (chan_sum A (average_dtype (dtype new_face) (dtype raw_mask))
                                     (elems raw_mask) k)) [0..<c])) \<rparr>"
  using assms by (simp add: process_def np_average_ok Let_def)

lemma process_propagates:
  "np_average A old_face raw_mask = Inl e \<Longrightarrow> process A old_face new_face raw_mask = Inl e"
  by (simp add: process_def)


text \<open>
  A mask in the specification's sense, one weight per pixel repeated in every channel,
  is a weight mask as soon as one of its weights is not zero.
\<close>

lemma per_pixel_weight_mask:
  assumes "well_shaped m" "per_pixel m" "nonzero_weight A m"
    and "list_all (list_all (list_all (\<lambda>x. has_dtype A (dtype m) x \<and> nonneg A x))) (elems m)"
  shows "weight_mask A m"
proof -
  obtain h w c where s: "shape m = (h, w, c)" by (cases "shape m") auto
  obtain row px x where rp: "row \<in> set (elems m)" "px \<in> set row" "x \<in> set px" "\<not> is_zero A x"
    using assms(3) by (auto simp: nonzero_weight_def list_ex_iff)
  have len: "length px = c"
    using assms(1) s rp(1,2) by (auto simp: well_shaped_def list_all_iff)
  have "case px of [] \<Rightarrow> True | x # xs \<Rightarrow> list_all (\<lambda>y. y = x) xs"
    using assms(2) rp(1,2) by (auto simp: per_pixel_def list_all_iff)
  then have same: "\<forall>y\<in>set px. y = hd px"
    by (cases px) (auto simp: list_all_iff)
  have "list_ex (\<lambda>x. \<not> is_zero A x) (channel (elems m) k)" if "k < c" for k
  proof -
    have "px ! k \<in> set px" using that len by simp
    then have "px ! k = x" using same rp(3) by metis
    moreover have "px ! k \<in> set (channel (elems m) k)"
      using rp(1,2) by (auto simp: channel_def)
    ultimately show ?thesis using rp(4) by (auto simp: list_ex_iff)
  qed
  then show ?thesis
    using assms(4) s by (simp add: weight_mask_def list_all_iff)
qed

text \<open>
  Claim C3. For arrays of one shape and a weight mask (weights that are not negative,
  with a weight that is not zero for each channel's computation), \<open>process\<close> returns
  the transformed array with each channel shifted by (weighted mean of the original
  minus weighted mean of the transformed array); the means are taken per channel over
  both spatial axes. Sums, products, quotients and differences are the machine's, with
  its rounding. Each element of the result is exactly the machine's sum of the
  transformed element and the shift: nothing clamps it.
\<close>

theorem process_shifts_by_mean_difference:
  assumes "float_sum_laws A"
    and "well_shaped old_face" "well_shaped new_face" "well_shaped raw_mask"
    and "shape old_face = shape new_face" "shape raw_mask = shape new_face"
    and "weight_mask A raw_mask"
  shows "\<exists>out. process A old_face new_face raw_mask = Inr out \<and> shape out = shape new_face \<and>
           well_shaped out \<and>
           (case shape new_face of (h, w, c) \<Rightarrow>
              \<forall>i<h. \<forall>j<w. \<forall>k<c.
                elems out ! i ! j ! k =
                  np_add A (dtype out) (elems new_face ! i ! j ! k)
                    (np_subtract A (promote (average_dtype (dtype old_face) (dtype raw_mask))
                                            (average_dtype (dtype new_face) (dtype raw_mask)))
                       (weighted_mean A (average_dtype (dtype old_face) (dtype raw_mask))
                          old_face raw_mask k)
                       (weighted_mean A (average_dtype (dtype new_face) (dtype raw_mask))
                          new_face raw_mask k)))"
proof -
  obtain h w c where s: "shape new_face = (h, w, c)"
    by (cases "shape new_face") auto
  let ?to = "average_dtype (dtype old_face) (dtype raw_mask)"
  let ?tn = "average_dtype (dtype new_face) (dtype raw_mask)"
  let ?td = "promote ?to ?tn"
  let ?t = "promote (dtype new_face) ?td"
  let ?om = "map (\<lambda>k. np_divide A ?to
                (chan_sum A ?to (multiply A ?to (elems old_face) (elems raw_mask)) k)
                (chan_sum A ?to (elems raw_mask) k)) [0..<c]"
  let ?nm = "map (\<lambda>k. np_divide A ?tn
                (chan_sum A ?tn (multiply A ?tn (elems new_face) (elems raw_mask)) k)
                (chan_sum A ?tn (elems raw_mask) k)) [0..<c]"
  let ?v = "map2 (np_subtract A ?td) ?om ?nm"
  let ?out = "\<lparr> shape = (h, w, c), dtype = ?t, elems = broadcast_add A ?t (elems new_face) ?v \<rparr>"
  have so: "shape old_face = (h, w, c)" and sm: "shape raw_mask = (h, w, c)"
    using assms s by simp_all
  have nz: "sums_nonzero A ?to raw_mask" "sums_nonzero A ?tn raw_mask"
    using assms(1,4,7) by (auto intro: weight_mask_sums_nonzero)
  have p: "process A old_face new_face raw_mask = Inr ?out"
    using process_ok[OF so s sm nz] .
  have rn: "rect h w c (elems new_face)"
    using assms(3) s by (rule well_shaped_rect)
  have lv: "length ?v = c" by simp
  have ws: "well_shaped ?out"
    using broadcast_add_rect[OF rn lv, of A ?t] by (auto intro: rect_well_shaped)
  have v: "?v ! k = np_subtract A ?td (weighted_mean A ?to old_face raw_mask k)
                                      (weighted_mean A ?tn new_face raw_mask k)"
    if "k < c" for k
    using that weighted_mean_code[OF assms(2) assms(4) so sm that, of A ?to]
      weighted_mean_code[OF assms(3) assms(4) s sm that, of A ?tn]
    by simp
  have e: "elems ?out ! i ! j ! k =
      np_add A ?t (elems new_face ! i ! j ! k)
        (np_subtract A ?td (weighted_mean A ?to old_face raw_mask k)
                           (weighted_mean A ?tn new_face raw_mask k))"
    if "i < h" "j < w" "k < c" for i j k
    using broadcast_add_index[OF rn lv that, of A ?t] v[OF that(3)] by simp
  show ?thesis
    using p ws e s by simp
qed

text \<open>
  The theorem in the arithmetic without rounding, at two pixels of two channels with a
  per-pixel mask. Only the first pixel has weight, so the means are the first pixels'
  values (1 and 0) and the shift is 1; the second pixel leaves the unit range,
  unclamped.
\<close>

theorem process_shifts_by_mean_difference_witness:
  "float_sum_laws exact_arith \<and>
   per_pixel (float32_array (1, 2, 2) [[[1, 1], [0, 0::real]]]) \<and>
   weight_mask exact_arith (float32_array (1, 2, 2) [[[1, 1], [0, 0]]]) \<and>
   (\<exists>out. process exact_arith (float32_array (1, 2, 2) [[[1, 1], [1, 1]]])
              (float32_array (1, 2, 2) [[[0, 0], [1, 1]]])
              (float32_array (1, 2, 2) [[[1, 1], [0, 0]]]) = Inr out \<and>
          shape out = (1, 2, 2) \<and> well_shaped out) \<and>
   process exact_arith (float32_array (1, 2, 2) [[[1, 1], [1, 1]]])
           (float32_array (1, 2, 2) [[[0, 0], [1, 1]]])
           (float32_array (1, 2, 2) [[[1, 1], [0, 0]]])
     = Inr (float32_array (1, 2, 2) [[[1, 1], [2, 2]]])"
proof -
  let ?old = "float32_array (1, 2, 2) [[[1, 1], [1, 1::real]]]"
  let ?new = "float32_array (1, 2, 2) [[[0, 0], [1, 1::real]]]"
  let ?mask = "float32_array (1, 2, 2) [[[1, 1], [0, 0::real]]]"
  have pp: "per_pixel ?mask"
    by (simp add: per_pixel_def)
  have ws: "well_shaped ?old" "well_shaped ?new" "well_shaped ?mask"
    by (simp_all add: well_shaped_def)
  have wm: "weight_mask exact_arith ?mask"
    by (rule per_pixel_weight_mask[OF ws(3) pp])
       (simp_all add: nonzero_weight_def exact_arith_def)
  have val: "process exact_arith ?old ?new ?mask = Inr (float32_array (1, 2, 2) [[[1, 1], [2, 2]]])"
    by (simp add: process_def np_average_def chan_sum_def channel_def multiply_def
        broadcast_add_def average_dtype_def exact_arith_def upt_rec)
  show ?thesis
    using process_shifts_by_mean_difference[OF float_sum_laws_exact ws _ _ wm]
      float_sum_laws_exact pp wm val
    by simp
qed

text \<open>
  Claim C8. \<open>process\<close> has no guard of its own: whatever \<^verbatim>\<open>np.average\<close> raises
  leaves \<open>process\<close> unchanged. With a weight mask both calls of \<^verbatim>\<open>np.average\<close> return
  and so does \<open>process\<close>; with a mask that is zero everywhere (on arrays that have a
  channel) the first call raises \<^verbatim>\<open>ZeroDivisionError\<close>, and so does \<open>process\<close>.
\<close>

theorem process_zero_mask_unguarded:
  assumes "float_sum_laws A" and "well_shaped raw_mask"
    and "shape old_face = shape new_face" "shape raw_mask = shape new_face"
  shows "(weight_mask A raw_mask \<longrightarrow>
            (\<exists>old_mean new_mean out.
               np_average A old_face raw_mask = Inr old_mean \<and>
               np_average A new_face raw_mask = Inr new_mean \<and>
               process A old_face new_face raw_mask = Inr out)) \<and>
         (all_zero A raw_mask \<and> 0 < snd (snd (shape raw_mask)) \<longrightarrow>
            np_average A old_face raw_mask = Inl ZeroDivisionError \<and>
            process A old_face new_face raw_mask = Inl ZeroDivisionError) \<and>
         (\<forall>e. np_average A old_face raw_mask = Inl e \<longrightarrow>
            process A old_face new_face raw_mask = Inl e)"
proof -
  obtain h w c where s: "shape new_face = (h, w, c)"
    by (cases "shape new_face") auto
  let ?to = "average_dtype (dtype old_face) (dtype raw_mask)"
  let ?tn = "average_dtype (dtype new_face) (dtype raw_mask)"
  have so: "shape old_face = (h, w, c)" and sm: "shape raw_mask = (h, w, c)"
    using assms s by simp_all
  have ok: "\<exists>old_mean new_mean out.
               np_average A old_face raw_mask = Inr old_mean \<and>
               np_average A new_face raw_mask = Inr new_mean \<and>
               process A old_face new_face raw_mask = Inr out"
    if "weight_mask A raw_mask"
  proof -
    have nz: "sums_nonzero A ?to raw_mask" "sums_nonzero A ?tn raw_mask"
      using assms(1,2) that by (auto intro: weight_mask_sums_nonzero)
    show ?thesis
      using np_average_ok[OF so sm nz(1)] np_average_ok[OF s sm nz(2)]
        process_ok[OF so s sm nz]
      by simp
  qed
  have zero: "np_average A old_face raw_mask = Inl ZeroDivisionError \<and>
              process A old_face new_face raw_mask = Inl ZeroDivisionError"
    if "all_zero A raw_mask" "0 < c"
  proof -
    have "\<not> sums_nonzero A ?to raw_mask"
      using all_zero_sums[OF assms(1,2) that(1) sm that(2)] .
    then have "np_average A old_face raw_mask = Inl ZeroDivisionError"
      using np_average_zero[OF so sm] by simp
    then show ?thesis by (simp add: process_propagates)
  qed
  show ?thesis
    using ok zero sm by (auto simp: process_propagates)
qed

text \<open>
  The theorem in the arithmetic without rounding, at a mask with weights 1 and 3 and
  at the mask of zeros.
\<close>

theorem process_zero_mask_unguarded_witness:
  "float_sum_laws exact_arith \<and>
   weight_mask exact_arith (float32_array (1, 2, 1) [[[1], [3]]]) \<and>
   (\<exists>out. process exact_arith (float32_array (1, 2, 1) [[[8], [4]]])
              (float32_array (1, 2, 1) [[[2], [6]]])
              (float32_array (1, 2, 1) [[[1], [3]]]) = Inr out) \<and>
   all_zero exact_arith (float32_array (1, 2, 1) [[[0], [0]]]) \<and>
   process exact_arith (float32_array (1, 2, 1) [[[8], [4]]])
           (float32_array (1, 2, 1) [[[2], [6]]])
           (float32_array (1, 2, 1) [[[0], [0]]]) = Inl ZeroDivisionError"
proof -
  let ?old = "float32_array (1, 2, 1) [[[8], [4::real]]]"
  let ?new = "float32_array (1, 2, 1) [[[2], [6::real]]]"
  let ?mask = "float32_array (1, 2, 1) [[[1], [3::real]]]"
  let ?zero = "float32_array (1, 2, 1) [[[0], [0::real]]]"
  have wm: "weight_mask exact_arith ?mask"
    by (simp add: weight_mask_def channel_def exact_arith_def)
  have ws: "well_shaped ?mask" "well_shaped ?zero"
    by (simp_all add: well_shaped_def)
  have z: "all_zero exact_arith ?zero"
    by (simp add: all_zero_def exact_arith_def)
  show ?thesis
    using process_zero_mask_unguarded[OF float_sum_laws_exact ws(1), of ?old ?new]
      process_zero_mask_unguarded[OF float_sum_laws_exact ws(2), of ?old ?new]
      float_sum_laws_exact wm z
    by simp
qed




section \<open>Configuration registry: properties\<close>

lemma and_then_Inr [simp]: "and_then (Inr x) f = f x"
  by (simp add: and_then_def)

lemma and_then_Inl [simp]: "and_then (Inl e) f = Inl e"
  by (simp add: and_then_def)

lemma add_section_ok:
  "title \<notin> set (map fst reg) \<Longrightarrow>
   add_section title info reg = Inr (reg @ [(title, \<lparr> section_info = info, section_items = [] \<rparr>)])"
  by (simp add: add_section_def)

lemma map_other_sections:
  "section \<notin> set (map fst reg) \<Longrightarrow>
   map (\<lambda>(t, s). if t = section then (t, g s) else (t, s)) reg = reg"
  by (induction reg) auto

lemma add_item_last:
  assumes "section \<notin> set (map fst reg)" "key \<notin> set (map fst its)" "supported (item_datatype v)"
  shows "add_item section key v (reg @ [(section, \<lparr> section_info = h, section_items = its \<rparr>)]) =
         Inr (reg @ [(section, \<lparr> section_info = h, section_items = its @ [(key, v)] \<rparr>)])"
proof -
  have "map_of reg section = None"
    using assms(1) by (simp add: map_of_eq_None_iff)
  then have "map_of (reg @ [(section, \<lparr> section_info = h, section_items = its \<rparr>)]) section =
             Some \<lparr> section_info = h, section_items = its \<rparr>"
    by (simp add: map_add_def)
  then show ?thesis
    using assms map_other_sections[OF assms(1)]
    by (simp add: add_item_def)
qed

lemma add_items_last:
  assumes "section \<notin> set (map fst reg)"
  shows "distinct (map fst (its @ ds)) \<Longrightarrow> list_all (\<lambda>(k, v). supported (item_datatype v)) ds \<Longrightarrow>
         add_items section ds (reg @ [(section, \<lparr> section_info = h, section_items = its \<rparr>)]) =
         Inr (reg @ [(section, \<lparr> section_info = h, section_items = its @ ds \<rparr>)])"
proof (induction ds arbitrary: its)
  case Nil
  then show ?case by simp
next
  case (Cons d ds)
  obtain key v where d: "d = (key, v)" by (cases d)
  have "key \<notin> set (map fst its)" "supported (item_datatype v)"
    using Cons.prems d by auto
  then have step: "add_item section key v (reg @ [(section, \<lparr> section_info = h, section_items = its \<rparr>)]) =
         Inr (reg @ [(section, \<lparr> section_info = h, section_items = its @ [(key, v)] \<rparr>)])"
    using assms by (simp add: add_item_last)
  have "distinct (map fst ((its @ [(key, v)]) @ ds))" "list_all (\<lambda>(k, v). supported (item_datatype v)) ds"
    using Cons.prems d by auto
  then show ?case
    using Cons.IH[of "its @ [(key, v)]"] step d by simp
qed

lemma load_module_ok:
  assumes "well_formed E (filename, module_path, plugin_type)"
    and "title_of (filename, module_path, plugin_type) \<notin> set (map fst reg)"
  shows "load_module E filename module_path plugin_type reg =
         Inr (reg @ [expected_section E (filename, module_path, plugin_type)])"
proof -
  obtain m h ds where m: "modules E (module_path @ ''.'' @ fst (splitext filename)) = Some m"
    and h: "HELPTEXT m = Some h" and ds: "DEFAULTS m = Some ds" and acc: "accepted_options ds"
    using assms(1)
    by (auto simp: well_formed_def module_of_def split: option.splits)
  let ?title = "section_title plugin_type filename"
  let ?info = "h @ (if endswith module_path ''model'' then ADDITIONAL_INFO else [])"
  have t: "?title \<notin> set (map fst reg)"
    using assms(2) by (simp add: title_of_def)
  have "add_items ?title ds (reg @ [(?title, \<lparr> section_info = ?info, section_items = [] \<rparr>)]) =
        Inr (reg @ [(?title, \<lparr> section_info = ?info, section_items = [] @ ds \<rparr>)])"
    using acc by (intro add_items_last[OF t]) (auto simp: accepted_options_def)
  then show ?thesis
    using m h ds add_section_ok[OF t]
    by (simp add: load_module_def expected_section_def module_of_def section_title_def Let_def)
qed


lemma load_all_append:
  "load_all E (fs @ gs) reg = and_then (load_all E fs reg) (load_all E gs)"
proof (induction fs arbitrary: reg)
  case Nil
  then show ?case by simp
next
  case (Cons f fs)
  obtain a b c where f: "f = (a, b, c)" by (cases f)
  show ?case
    using Cons.IH f by (cases "load_module E a b c reg") simp_all
qed

lemma load_files_load_all:
  "load_files E fnames ip pt reg = load_all E (map (\<lambda>filename. (filename, ip, pt)) fnames) reg"
proof (induction fnames arbitrary: reg)
  case Nil
  then show ?case by simp
next
  case (Cons f fs)
  then show ?case by (cases "load_module E f ip pt reg") simp_all
qed

lemma walk_dirs_load_all:
  "walk_dirs E w reg =
   load_all E (concat (map (\<lambda>(dirpath, filenames).
                    map (\<lambda>filename. (filename, import_path_of E dirpath,
                                       plugin_type_of (import_path_of E dirpath)))
                        (default_files_of filenames)) w)) reg"
proof (induction w arbitrary: reg)
  case Nil
  then show ?case by simp
next
  case (Cons d w)
  obtain dirpath filenames where d: "d = (dirpath, filenames)" by (cases d)
  show ?case
  proof (cases "default_files_of filenames = []")
    case True
    then show ?thesis using Cons.IH d by simp
  next
    case False
    then show ?thesis
      using Cons.IH d
      by (cases "load_all E (map (\<lambda>filename. (filename, import_path_of E dirpath,
                                       plugin_type_of (import_path_of E dirpath)))
                        (default_files_of filenames)) reg")
         (simp_all add: load_all_append load_files_load_all Let_def)
  qed
qed

lemma load_all_ok:
  "list_all (well_formed E) fs \<Longrightarrow> distinct (map title_of fs) \<Longrightarrow>
   set (map title_of fs) \<inter> set (map fst reg) = {} \<Longrightarrow>
   load_all E fs reg = Inr (reg @ map (expected_section E) fs)"
proof (induction fs arbitrary: reg)
  case Nil
  then show ?case by simp
next
  case (Cons f fs)
  obtain a b c where f: "f = (a, b, c)" by (cases f)
  have wf: "well_formed E (a, b, c)" and t: "title_of (a, b, c) \<notin> set (map fst reg)"
    using Cons.prems f by auto
  have step: "load_module E a b c reg = Inr (reg @ [expected_section E (a, b, c)])"
    using load_module_ok[OF wf t] .
  have fst_exp: "fst (expected_section E (a, b, c)) = title_of (a, b, c)"
    by (simp add: expected_section_def title_of_def section_title_def)
  have "set (map title_of fs) \<inter> set (map fst (reg @ [expected_section E (a, b, c)])) = {}"
    using Cons.prems f fst_exp by auto
  moreover have "list_all (well_formed E) fs" "distinct (map title_of fs)"
    using Cons.prems by auto
  ultimately have "load_all E fs (reg @ [expected_section E (a, b, c)]) =
      Inr ((reg @ [expected_section E (a, b, c)]) @ map (expected_section E) fs)"
    by (rule Cons.IH[rotated 2])
  then show ?case using step f by simp
qed



lemma add_item_only_section:
  assumes "key \<notin> set (map fst its)" "supported (item_datatype v)"
  shows "add_item sec key v [(sec, \<lparr> section_info = h, section_items = its \<rparr>)] =
         Inr [(sec, \<lparr> section_info = h, section_items = its @ [(key, v)] \<rparr>)]"
  using add_item_last[of sec "[]" key its v h] assms by simp

lemma supported_new_item [simp]:
  "supported (item_datatype (new_item TBool d i))"
  "supported (item_datatype (new_item TStr d i))"
  "supported (item_datatype (new_item TFloat d i))"
  by (simp_all add: supported_def new_item_def)

lemma set_globals_value:
  "set_globals available [] =
     Inr [(''global'',
           \<lparr> section_info = ''Options that apply to all models'' @ ADDITIONAL_INFO,
             section_items =
               [(''icnr_init'', new_item TBool (PBool False) info_icnr_init),
                (''conv_aware_init'', new_item TBool (PBool False) info_conv_aware_init),
                (''subpixel_upscaling'', new_item TBool (PBool False) info_subpixel_upscaling),
                (''reflect_padding'', new_item TBool (PBool False) info_reflect_padding),
                (''penalized_mask_loss'', new_item TBool (PBool True) info_penalized_mask_loss),
                (''image_loss_function'',
                 (new_item TStr (PStr ''Mean_Absolute_Error'') info_image_loss_function)
                   \<lparr> item_choices := Some [''Mean_Absolute_Error'', ''Mean_Squared_Error'',
                         ''LogCosh'', ''Smooth_L1'', ''L_inf_norm'', ''SSIM'', ''GMSD'',
                         ''Pixel_Gradient_Difference''] \<rparr>),
                (''mask_type'',
                 (new_item TStr (PStr ''none'') info_mask_type)
                   \<lparr> item_choices := Some available \<rparr>),
                (''learning_rate'',
                 (new_item TFloat (PFloat 0.00005) info_learning_rate)
                   \<lparr> item_min_max := Some (0.000001, 0.0001), item_rounding := Some 6,
                     item_fixed := Some False \<rparr>),
                (''coverage'',
                 (new_item TFloat (PFloat 68.75) info_coverage)
                   \<lparr> item_min_max := Some (62.5, 100.0), item_fixed := Some True \<rparr>)] \<rparr>)]"
  unfolding set_globals_def Let_def
  by (simp add: add_section_def add_item_only_section)


lemma replace_nonempty_skip:
  "\<not> startswith (c # s) old \<Longrightarrow>
   replace_nonempty old new (c # s) = c # replace_nonempty old new s"
  by (subst replace_nonempty.simps) simp

lemma replace_nonempty_match:
  "old \<noteq> [] \<Longrightarrow> replace_nonempty old new (old @ rest) = new @ replace_nonempty old new rest"
  by (subst replace_nonempty.simps) (simp add: startswith_def)

lemma replace_keeps_free:
  "free_of old q \<Longrightarrow> replace_nonempty old new q = q"
proof (induction q)
  case Nil
  then show ?case by (subst replace_nonempty.simps) simp
next
  case (Cons c q)
  then have "\<not> startswith (c # q) old" and "free_of old q"
    by (simp_all add: free_of_def)
  then show ?case
    using Cons.IH by (simp add: replace_nonempty_skip)
qed

lemma startswith_longer:
  "length old \<le> length s \<Longrightarrow> startswith (s @ rest) old = startswith s old"
  by (simp add: startswith_def)

lemma replace_drops_occurrence:
  "old \<noteq> [] \<Longrightarrow> separable old p \<Longrightarrow>
   replace_nonempty old [] (p @ old @ rest) = p @ replace_nonempty old [] rest"
proof (induction p)
  case Nil
  then show ?case using replace_nonempty_match[of old "[]" rest] by simp
next
  case (Cons c p)
  then have ne: "\<not> startswith ((c # p) @ old) old" and sp: "separable old p"
    by (simp_all add: separable_def)
  have "startswith (((c # p) @ old) @ rest) old = startswith ((c # p) @ old) old"
    by (rule startswith_longer) simp
  then have "\<not> startswith (c # (p @ old @ rest)) old"
    using ne by simp
  then have "replace_nonempty old [] (c # (p @ old @ rest)) =
             c # replace_nonempty old [] (p @ old @ rest)"
    by (rule replace_nonempty_skip)
  then show ?case using Cons.IH[OF Cons.prems(1) sp] by simp
qed

lemma replace_drops_every_occurrence:
  "old \<noteq> [] \<Longrightarrow> list_all (separable old) ps \<Longrightarrow> free_of old q \<Longrightarrow>
   replace (concat (map (\<lambda>p. p @ old) ps) @ q) old [] = concat ps @ q"
proof (induction ps)
  case Nil
  then show ?case by (simp add: replace_def replace_keeps_free)
next
  case (Cons p ps)
  then show ?case
    using replace_drops_occurrence[of old p "concat (map (\<lambda>p. p @ old) ps) @ q"]
    by (simp add: replace_def)
qed

lemma rfind_absent: "c \<notin> set s \<Longrightarrow> rfind s c = -1"
proof -
  assume "c \<notin> set s"
  then have "dropWhile (\<lambda>x. x \<noteq> c) (rev s) = []"
    by auto
  then show ?thesis by (simp add: rfind_def)
qed

lemma rfind_last: "c \<notin> set t \<Longrightarrow> rfind (s @ c # t) c = int (length s)"
proof -
  assume "c \<notin> set t"
  then have "dropWhile (\<lambda>x. x \<noteq> c) (rev t @ c # rev s) = c # rev s"
    by (simp add: dropWhile_append)
  then show ?thesis by (simp add: rfind_def)
qed

lemma splitext_py:
  assumes "list_ex (\<lambda>x. x \<noteq> CHR ''.'') stem" "CHR ''/'' \<notin> set stem"
  shows "splitext (stem @ ''.py'') = (stem, ''.py'')"
proof -
  have sep: "rfind (stem @ ''.py'') (CHR ''/'') = -1"
    using assms(2) by (simp add: rfind_absent)
  have dot: "rfind (stem @ ''.py'') (CHR ''.'') = int (length stem)"
    using rfind_last[of "CHR ''.''" "''py''" stem] by simp
  show ?thesis
    using sep dot assms(1) by (simp add: splitext_def)
qed

lemma add_item_keys:
  "add_item sec key v reg = Inr reg' \<Longrightarrow> map fst reg' = map fst reg"
  by (auto simp: add_item_def split: option.splits if_splits)

lemma add_items_keys:
  "add_items sec ds reg = Inr reg' \<Longrightarrow> map fst reg' = map fst reg"
proof (induction ds arbitrary: reg)
  case Nil
  then show ?case by simp
next
  case (Cons d ds)
  obtain key v where d: "d = (key, v)" by (cases d)
  show ?case
  proof (cases "add_item sec key v reg")
    case (Inl e)
    then show ?thesis using Cons.prems d by simp
  next
    case (Inr reg1)
    then show ?thesis
      using Cons.prems d Cons.IH[of reg1] add_item_keys[OF Inr] by simp
  qed
qed

lemma load_module_keys:
  assumes "load_module E filename module_path plugin_type reg = Inr reg'"
  shows "map fst reg' = map fst reg @ [section_title plugin_type filename]"
proof -
  let ?t = "section_title plugin_type filename"
  obtain m h where m: "modules E (module_path @ ''.'' @ fst (splitext filename)) = Some m"
    and h: "HELPTEXT m = Some h"
    using assms by (auto simp: load_module_def Let_def split: option.splits)
  let ?info = "h @ (if endswith module_path ''model'' then ADDITIONAL_INFO else [])"
  obtain reg1 where r1: "add_section ?t ?info reg = Inr reg1"
    using assms m h by (cases "add_section ?t ?info reg") (auto simp: load_module_def Let_def)
  then have k1: "map fst reg1 = map fst reg @ [?t]"
    by (auto simp: add_section_def split: if_splits)
  obtain ds where "DEFAULTS m = Some ds" and "add_items ?t ds reg1 = Inr reg'"
    using assms m h r1 by (auto simp: load_module_def Let_def split: option.splits)
  then show ?thesis
    using add_items_keys k1 by metis
qed

lemma title_not_global: "title_of f \<noteq> ''global''"
proof -
  obtain a b c where f: "f = (a, b, c)" by (cases f)
  have "CHR ''.'' \<in> set (title_of f)"
    using f by (simp add: title_of_def section_title_def)
  then show ?thesis by auto
qed

text \<open>
  Claim C4. On a fresh registry \<open>set_globals\<close> returns, and the registry then holds the
  one section \<open>global\<close> with exactly nine options, in this order and with these
  datatypes, defaults, choices, bounds, rounding and fixed flags; an entry \<open>None\<close> is an
  argument the call does not pass.
\<close>

theorem set_globals_registers_nine_options:
  "\<exists>sec. set_globals available [] = Inr [(''global'', sec)] \<and>
     length (section_items sec) = 9 \<and>
     map (\<lambda>(title, i). (title, item_datatype i, item_default i, item_choices i,
                          item_min_max i, item_rounding i, item_fixed i)) (section_items sec) =
     [(''icnr_init'', TBool, PBool False, None, None, None, None),
      (''conv_aware_init'', TBool, PBool False, None, None, None, None),
      (''subpixel_upscaling'', TBool, PBool False, None, None, None, None),
      (''reflect_padding'', TBool, PBool False, None, None, None, None),
      (''penalized_mask_loss'', TBool, PBool True, None, None, None, None),
      (''image_loss_function'', TStr, PStr ''Mean_Absolute_Error'',
         Some [''Mean_Absolute_Error'', ''Mean_Squared_Error'', ''LogCosh'', ''Smooth_L1'',
               ''L_inf_norm'', ''SSIM'', ''GMSD'', ''Pixel_Gradient_Difference''],
         None, None, None),
      (''mask_type'', TStr, PStr ''none'', Some available, None, None, None),
      (''learning_rate'', TFloat, PFloat (5 / 10 ^ 5), None,
         Some (1 / 10 ^ 6, 1 / 10 ^ 4), Some 6, Some False),
      (''coverage'', TFloat, PFloat 68.75, None, Some (62.5, 100), None, Some True)]"
  by (simp add: set_globals_value new_item_def)

text \<open>The theorem for the two masks \<^verbatim>\<open>none\<close> and \<^verbatim>\<open>components\<close>.\<close>

theorem set_globals_registers_nine_options_witness:
  "\<exists>sec. set_globals [''none'', ''components''] [] = Inr [(''global'', sec)] \<and>
     length (section_items sec) = 9 \<and>
     map (\<lambda>(title, i). (title, item_datatype i, item_default i, item_choices i,
                          item_min_max i, item_rounding i, item_fixed i)) (section_items sec) =
     [(''icnr_init'', TBool, PBool False, None, None, None, None),
      (''conv_aware_init'', TBool, PBool False, None, None, None, None),
      (''subpixel_upscaling'', TBool, PBool False, None, None, None, None),
      (''reflect_padding'', TBool, PBool False, None, None, None, None),
      (''penalized_mask_loss'', TBool, PBool True, None, None, None, None),
      (''image_loss_function'', TStr, PStr ''Mean_Absolute_Error'',
         Some [''Mean_Absolute_Error'', ''Mean_Squared_Error'', ''LogCosh'', ''Smooth_L1'',
               ''L_inf_norm'', ''SSIM'', ''GMSD'', ''Pixel_Gradient_Difference''],
         None, None, None),
      (''mask_type'', TStr, PStr ''none'', Some [''none'', ''components''], None, None, None),
      (''learning_rate'', TFloat, PFloat (5 / 10 ^ 5), None,
         Some (1 / 10 ^ 6, 1 / 10 ^ 4), Some 6, Some False),
      (''coverage'', TFloat, PFloat 68.75, None, Some (62.5, 100), None, Some True)]"
  by (rule set_globals_registers_nine_options)

text \<open>
  Claim C5, as amended. When every defaults file of the tree is well formed and the
  section titles of the files are pairwise distinct, discovery on a fresh registry
  returns the global section followed by exactly one section per defaults file, in walk
  order: named plugin type, dot, module name without \<^verbatim>\<open>_defaults\<close>, with the module's
  help text as info, extended by the addendum exactly when the module path ends in
  \<^verbatim>\<open>model\<close>, and with the options of the module's mapping.
\<close>

theorem discovery_creates_one_section_per_file:
  assumes "list_all (well_formed E) (defaults_files E)"
    and "distinct (map title_of (defaults_files E))"
  shows "\<exists>global reg.
           set_globals (available_masks E) [] = Inr [(''global'', global)] \<and>
           set_defaults E [] = Inr reg \<and>
           reg = (''global'', global) # map (expected_section E) (defaults_files E) \<and>
           length reg = 1 + length (defaults_files E)"
proof -
  obtain global where g: "set_globals (available_masks E) [] = Inr [(''global'', global)]"
    using set_globals_value by blast
  have "title_of f \<noteq> ''global''" for f
    by (rule title_not_global)
  then have "set (map title_of (defaults_files E)) \<inter> set (map fst [(''global'', global)]) = {}"
    by fastforce
  then have "load_all E (defaults_files E) [(''global'', global)] =
             Inr ([(''global'', global)] @ map (expected_section E) (defaults_files E))"
    using assms by (intro load_all_ok)
  then show ?thesis
    using g by (simp add: set_defaults_def walk_dirs_load_all defaults_files_def)
qed

text \<open>
  The theorem on a tree with two defaults files in \<^verbatim>\<open>model\<close>, a file that is none, and one
  defaults file in \<^verbatim>\<open>trainer\<close>: three new sections behind the global one, the addendum on
  the two model sections only.
\<close>

theorem discovery_creates_one_section_per_file_witness:
  "list_all (well_formed (example_env [''original_defaults.py'', ''original.py'', ''dfl_h128_defaults.py'']
       [(''plugins.train.model.original_defaults'', example_module ''Original''),
        (''plugins.train.model.dfl_h128_defaults'', example_module ''DFL H128'')]))
     (defaults_files (example_env [''original_defaults.py'', ''original.py'', ''dfl_h128_defaults.py'']
       [(''plugins.train.model.original_defaults'', example_module ''Original''),
        (''plugins.train.model.dfl_h128_defaults'', example_module ''DFL H128'')])) \<and>
   (\<exists>reg. set_defaults (example_env [''original_defaults.py'', ''original.py'', ''dfl_h128_defaults.py'']
       [(''plugins.train.model.original_defaults'', example_module ''Original''),
        (''plugins.train.model.dfl_h128_defaults'', example_module ''DFL H128'')]) [] = Inr reg \<and>
      length reg = 4 \<and>
      map (\<lambda>(title, sec). (title, endswith (section_info sec) ADDITIONAL_INFO,
                             map fst (section_items sec))) (tl reg) =
        [(''model.original'', True, [''lowmem'']),
         (''model.dfl_h128'', True, [''lowmem'']),
         (''trainer.original'', False, [])])"
proof -
  let ?E = "example_env [''original_defaults.py'', ''original.py'', ''dfl_h128_defaults.py'']
       [(''plugins.train.model.original_defaults'', example_module ''Original''),
        (''plugins.train.model.dfl_h128_defaults'', example_module ''DFL H128'')]"
  have files: "defaults_files ?E =
      [(''original_defaults.py'', ''plugins.train.model'', ''model''),
       (''dfl_h128_defaults.py'', ''plugins.train.model'', ''model''),
       (''original_defaults.py'', ''plugins.train.trainer'', ''trainer'')]"
    by code_simp
  have wf: "list_all (well_formed ?E) (defaults_files ?E)"
    by code_simp
  have di: "distinct (map title_of (defaults_files ?E))"
    by code_simp
  have ex: "map (\<lambda>(title, sec). (title, endswith (section_info sec) ADDITIONAL_INFO,
                             map fst (section_items sec)))
              (map (expected_section ?E) (defaults_files ?E)) =
        [(''model.original'', True, [''lowmem'']),
         (''model.dfl_h128'', True, [''lowmem'']),
         (''trainer.original'', False, [])]"
    by code_simp
  obtain global reg where "set_defaults ?E [] = Inr reg"
    and "reg = (''global'', global) # map (expected_section ?E) (defaults_files ?E)"
    and "length reg = 1 + length (defaults_files ?E)"
    using discovery_creates_one_section_per_file[OF wf di] by blast
  then show ?thesis
    using wf ex files by simp
qed

text \<open>
  Claim C5 as stated asks only that the files be well formed. The files
  \<^verbatim>\<open>a_defaults.py\<close> and \<^verbatim>\<open>a_defaults_defaults.py\<close> of one directory are, and both get the
  title \<^verbatim>\<open>model.a\<close>: three defaults files, and discovery ends in the error of the second
  \<^verbatim>\<open>add_section\<close> instead of three new sections.
\<close>

theorem discovery_title_collision_counterexample:
  "list_all (well_formed (example_env [''a_defaults.py'', ''a_defaults_defaults.py'']
       [(''plugins.train.model.a_defaults'', example_module ''A''),
        (''plugins.train.model.a_defaults_defaults'', example_module ''B'')]))
     (defaults_files (example_env [''a_defaults.py'', ''a_defaults_defaults.py'']
       [(''plugins.train.model.a_defaults'', example_module ''A''),
        (''plugins.train.model.a_defaults_defaults'', example_module ''B'')])) \<and>
   length (defaults_files (example_env [''a_defaults.py'', ''a_defaults_defaults.py'']
       [(''plugins.train.model.a_defaults'', example_module ''A''),
        (''plugins.train.model.a_defaults_defaults'', example_module ''B'')])) = 3 \<and>
   map title_of (defaults_files (example_env [''a_defaults.py'', ''a_defaults_defaults.py'']
       [(''plugins.train.model.a_defaults'', example_module ''A''),
        (''plugins.train.model.a_defaults_defaults'', example_module ''B'')])) =
     [''model.a'', ''model.a'', ''trainer.original''] \<and>
   map_sum (map_prod id (map fst)) (map fst)
     (set_defaults (example_env [''a_defaults.py'', ''a_defaults_defaults.py'']
       [(''plugins.train.model.a_defaults'', example_module ''A''),
        (''plugins.train.model.a_defaults_defaults'', example_module ''B'')]) [])
     = Inl (ValueError ''model.a'', [''global'', ''model.a''])"
  by code_simp






text \<open>
  Claim C10. The section title is the plugin type, a dot, and the file name without its
  extension after \<^verbatim>\<open>replace("_defaults", "")\<close>, which deletes every occurrence and not
  only a trailing one: for a file name made of pieces without underscore, dot or slash,
  each followed by \<^verbatim>\<open>_defaults\<close>, the title keeps the pieces alone. A call of
  \<open>load_module\<close> that returns has added the section under that title.
\<close>

theorem section_title_removes_every_defaults:
  assumes "ps \<noteq> []"
    and "list_all (separable ''_defaults'') ps" "free_of ''_defaults'' q"
    and "\<forall>p\<in>set (q # ps). CHR ''/'' \<notin> set p"
  shows "section_title plugin_type (concat (map (\<lambda>p. p @ ''_defaults'') ps) @ q @ ''.py'') =
           plugin_type @ ''.'' @ concat ps @ q \<and>
         section_title plugin_type filename =
           plugin_type @ ''.'' @ replace (fst (splitext filename)) ''_defaults'' '''' \<and>
         (load_module E filename module_path plugin_type reg = Inr reg' \<longrightarrow>
            map fst reg' = map fst reg @ [section_title plugin_type filename])"
proof -
  let ?stem = "concat (map (\<lambda>p. p @ ''_defaults'') ps) @ q"
  have "list_ex (\<lambda>x. x \<noteq> CHR ''.'') ?stem"
    using assms(1) by (cases ps) (auto simp: list_ex_iff)
  moreover have "CHR ''/'' \<notin> set ?stem"
    using assms(4) by auto
  ultimately have "splitext (?stem @ ''.py'') = (?stem, ''.py'')"
    by (rule splitext_py)
  moreover have "replace ?stem ''_defaults'' [] = concat ps @ q"
    using assms(2,3) by (intro replace_drops_every_occurrence) simp_all
  ultimately have "section_title plugin_type (?stem @ ''.py'') = plugin_type @ ''.'' @ concat ps @ q"
    by (simp add: section_title_def)
  then show ?thesis
    using load_module_keys[of E filename module_path plugin_type reg reg']
    by (simp add: section_title_def)
qed

text \<open>
  The theorem at \<^verbatim>\<open>old_defaults_dfl_h128_defaults.py\<close>: the inner occurrence goes as well
  as the trailing one.
\<close>

theorem section_title_removes_every_defaults_witness:
  "list_all (separable ''_defaults'') [''old'', ''_dfl_h128''] \<and> free_of ''_defaults'' '''' \<and>
   section_title ''model'' ''old_defaults_dfl_h128_defaults.py'' = ''model.old_dfl_h128''"
proof -
  have ne: "[''old'', ''_dfl_h128''] \<noteq> []"
    by simp
  have s: "list_all (separable ''_defaults'') [''old'', ''_dfl_h128'']"
    by code_simp
  have f: "free_of ''_defaults'' ''''"
    by code_simp
  have sl: "\<forall>p\<in>set ('''' # [''old'', ''_dfl_h128'']). CHR ''/'' \<notin> set p"
    by simp
  have "section_title ''model''
          (concat (map (\<lambda>p. p @ ''_defaults'') [''old'', ''_dfl_h128'']) @ '''' @ ''.py'') =
        ''model'' @ ''.'' @ concat [''old'', ''_dfl_h128''] @ ''''"
    using section_title_removes_every_defaults[OF ne s f sl] by (rule conjunct1)
  then have "section_title ''model'' ''old_defaults_dfl_h128_defaults.py'' = ''model.old_dfl_h128''"
    by simp
  then show ?thesis using s f by simp
qed


section \<open>Model composition: properties\<close>

lemma called_as_outputs:
  "t \<in> set (as_outputs m v) \<Longrightarrow> called t = called v"
  by (auto simp: as_outputs_def split: if_splits)

text \<open>
  Claim C1, as amended. \<open>initialize\<close> builds no sub-network. It takes the encoder that
  is registered in \<^verbatim>\<open>self.networks\<close> under \<^verbatim>\<open>encoder\<close> and composes both predictor
  graphs with it: the outputs of predictor \<open>a\<close> are those of decoder\_a called on the
  encoder called on an input, the outputs of predictor \<open>b\<close> are those of decoder\_b called
  on the encoder called on an input, and in both graphs the encoder is the one object
  \<open>enc\<close> (the same identity, not an equal copy). \<^verbatim>\<open>self.networks\<close> is unchanged, and
  no sub-network is held or called afterwards that was not registered before.
\<close>

theorem initialize_shares_registered_encoder:
  assumes "map_of (networks self) ''encoder'' = Some enc"
    and "map_of (networks self) ''decoder_a'' = Some dec_a"
    and "map_of (networks self) ''decoder_b'' = Some dec_b"
  shows "\<exists>self' ae_a ae_b.
           initialize self = Inr self' \<and>
           predictors self' ''a'' = Some ae_a \<and> predictors self' ''b'' = Some ae_b \<and>
           outputs ae_a =
             as_outputs dec_a (Apply (ident dec_a) (Apply (ident enc) (Input (input_shape self)))) \<and>
           outputs ae_b =
             as_outputs dec_b (Apply (ident dec_b) (Apply (ident enc) (Input (input_shape self)))) \<and>
           (\<forall>t\<in>set (outputs ae_a). called t = [ident enc, ident dec_a]) \<and>
           (\<forall>t\<in>set (outputs ae_b). called t = [ident enc, ident dec_b]) \<and>
           networks self' = networks self \<and>
           built_during self self' = []"
proof -
  let ?inp = "Input (input_shape self)"
  let ?mask = "Input (take 2 (input_shape self) @ [1])"
  let ?ae_a = "\<lparr> inputs = [?inp, ?mask],
                 outputs = as_outputs dec_a (Apply (ident dec_a) (Apply (ident enc) ?inp)) \<rparr>"
  let ?ae_b = "\<lparr> inputs = [?inp, ?mask],
                 outputs = as_outputs dec_b (Apply (ident dec_b) (Apply (ident enc) ?inp)) \<rparr>"
  let ?self' = "(add_predictors ?ae_a ?ae_b self)\<lparr> masks := [?mask, ?mask] \<rparr>"
  have i: "initialize self = Inr ?self'"
    using assms by (simp add: initialize_def lookup_network_def Let_def)
  have pa: "predictors ?self' ''a'' = Some ?ae_a" and pb: "predictors ?self' ''b'' = Some ?ae_b"
    by (simp_all add: add_predictors_def)
  have n: "networks ?self' = networks self"
    by (simp add: add_predictors_def)
  have ca: "called t = [ident enc, ident dec_a]" if "t \<in> set (outputs ?ae_a)" for t
    using that called_as_outputs[of t dec_a] by simp
  have cb: "called t = [ident enc, ident dec_b]" if "t \<in> set (outputs ?ae_b)" for t
    using that called_as_outputs[of t dec_b] by simp
  have reg: "ident enc \<in> set (registered self)" "ident dec_a \<in> set (registered self)"
    "ident dec_b \<in> set (registered self)"
    using map_of_SomeD[OF assms(1)] map_of_SomeD[OF assms(2)] map_of_SomeD[OF assms(3)]
    by (force simp: registered_def)+
  have "set (graph_calls ?self') \<subseteq> set (registered self)"
    using ca cb reg pa pb by (auto simp: graph_calls_def)
  then have b: "built_during self ?self' = []"
    using n by (auto simp: built_during_def registered_def filter_empty_conv)
  show ?thesis
    using i pa pb n b ca cb by (intro exI[of _ ?self'] exI[of _ ?ae_a] exI[of _ ?ae_b]) simp
qed

text \<open>
  The theorem at a model whose encoder is object 0 and whose decoders, of two outputs
  each, are objects 1 and 2: both predictors have two outputs.
\<close>

theorem initialize_shares_registered_encoder_witness:
  "\<exists>self' ae_a ae_b.
     initialize (example_model False PNone) = Inr self' \<and>
     predictors self' ''a'' = Some ae_a \<and> predictors self' ''b'' = Some ae_b \<and>
     outputs ae_a = [Item 0 (Apply 1 (Apply 0 (Input [128, 128, 3]))),
                     Item 1 (Apply 1 (Apply 0 (Input [128, 128, 3])))] \<and>
     outputs ae_b = [Item 0 (Apply 2 (Apply 0 (Input [128, 128, 3]))),
                     Item 1 (Apply 2 (Apply 0 (Input [128, 128, 3])))] \<and>
     built_during (example_model False PNone) self' = []"
proof -
  let ?enc = "\<lparr> ident = 0, network = encoder (bare_model False PNone) \<rparr>"
  let ?dec_a = "\<lparr> ident = 1, network = decoder_HEAD (bare_model False PNone) \<rparr>"
  let ?dec_b = "\<lparr> ident = 2, network = decoder_HEAD (bare_model False PNone) \<rparr>"
  have o: "as_outputs ?dec_a v = [Item 0 v, Item 1 v]" "as_outputs ?dec_b v = [Item 0 v, Item 1 v]" for v
    by (simp_all add: as_outputs_def decoder_HEAD_def Let_def upt_rec)
  obtain self' ae_a ae_b where
    "initialize (example_model False PNone) = Inr self'"
    "predictors self' ''a'' = Some ae_a" "predictors self' ''b'' = Some ae_b"
    "outputs ae_a = as_outputs ?dec_a (Apply 1 (Apply 0 (Input [128, 128, 3])))"
    "outputs ae_b = as_outputs ?dec_b (Apply 2 (Apply 0 (Input [128, 128, 3])))"
    "built_during (example_model False PNone) self' = []"
    using initialize_shares_registered_encoder[of "example_model False PNone" ?enc ?dec_a ?dec_b]
    by auto
  then show ?thesis using o by auto
qed

text \<open>
  Claim C1 as stated has one encoder built within the call. At that model the call
  returns with the three objects registered before it and no other: the two graphs call
  object 0, registered as the encoder, and nothing is built.
\<close>

theorem initialize_builds_no_encoder_counterexample:
  "registered (example_model False PNone) = [1, 2, 0] \<and>
   map_sum id registered (initialize (example_model False PNone)) = Inr [1, 2, 0] \<and>
   map_sum id graph_calls (initialize (example_model False PNone)) = Inr [0, 1, 0, 1, 0, 2, 0, 2] \<and>
   map_sum id (built_during (example_model False PNone)) (initialize (example_model False PNone))
     = Inr []"
  by (simp add: initialize_def lookup_network_def add_predictors_def as_outputs_def
      registered_def graph_calls_def built_during_def decoder_HEAD_def Let_def upt_rec)

text \<open>Without a registered encoder the call ends in the \<^verbatim>\<open>KeyError\<close> of the lookup.\<close>

lemma initialize_KeyError:
  "map_of (networks self) ''encoder'' = None \<Longrightarrow> \<exists>name. initialize self = Inl (KeyError name)"
  by (simp add: initialize_def lookup_network_def Let_def split: option.splits)

text \<open>
  Claim C2 (on the incoming side of the merge, which the specification follows). When
  the resolved \<^verbatim>\<open>mask_type\<close> is empty (the option is missing, \<^verbatim>\<open>None\<close> or the empty
  string) the decoder has exactly one output, the three-channel image convolution, and its
  graph holds no other convolution: the mask branch is not built. When \<^verbatim>\<open>mask_type\<close> is
  a non-empty string the decoder has exactly two outputs, the image and a one-channel
  mask convolution on the same trunk.
\<close>

theorem decoder_outputs_by_mask_type:
  "(config self ''mask_type'' = None \<or> config self ''mask_type'' = Some PNone \<or>
    config self ''mask_type'' = Some (PStr '''') \<longrightarrow>
      length (outputs (decoder self)) = 1 \<and>
      concat (map conv2d_filters (outputs (decoder self))) = [3]) \<and>
   (\<forall>s. config self ''mask_type'' = Some (PStr s) \<and> s \<noteq> '''' \<longrightarrow>
      length (outputs (decoder self)) = 2 \<and>
      concat (map conv2d_filters (outputs (decoder self))) = [3, 1] \<and>
      (\<exists>var. outputs (decoder self) =
         [Conv2D 3 5 ''same'' ''sigmoid'' var, Conv2D 1 5 ''same'' ''sigmoid'' var]))"
  by (auto simp: decoder_def config_get_def Let_def)

text \<open>The theorem without a mask type and with the mask type \<^verbatim>\<open>components\<close>.\<close>

theorem decoder_outputs_by_mask_type_witness:
  "length (outputs (decoder (example_model False PNone))) = 1 \<and>
   concat (map conv2d_filters (outputs (decoder (example_model False PNone)))) = [3] \<and>
   length (outputs (decoder (example_model False (PStr ''components'')))) = 2 \<and>
   concat (map conv2d_filters (outputs (decoder (example_model False (PStr ''components''))))) =
     [3, 1]"
  using decoder_outputs_by_mask_type[of "example_model False PNone"]
    decoder_outputs_by_mask_type[of "example_model False (PStr ''components'')"]
  by simp

text \<open>The \<^verbatim>\<open>HEAD\<close> side of the merge never looks at the option: always two outputs.\<close>

lemma decoder_HEAD_outputs:
  "concat (map conv2d_filters (outputs (decoder_HEAD self))) = [3, 1]"
  by (simp add: decoder_HEAD_def Let_def)

text \<open>
  Claim C7, as amended. The decoder does not mirror the encoder. For every model object
  the encoder has four down-sampling stages of 128, 256, 512 and 1024 filters, whatever
  the latent width, and one up-sampling stage of encoder\_dim filters; the decoder has
  three up-sampling stages of encoder\_dim, encoder\_dim div 2 and encoder\_dim div 4
  filters and no down-sampling stage. What does correspond: the up-sampling stages of
  encoder and decoder together are as many as the encoder's down-sampling stages, and
  the decoder's input (16, 16, encoder\_dim) has the channel count of the encoder's last
  stage. \<open>encoder\<close> and \<open>decoder\<close> are total: they return a graph and raise nothing.
\<close>

theorem encoder_decoder_schedules:
  "down_schedule (encoder self) = [128, 256, 512, 1024] \<and>
   up_schedule (encoder self) = [encoder_dim self] \<and>
   down_schedule (decoder self) = [] \<and>
   up_schedule (decoder self) =
     [encoder_dim self, encoder_dim self div 2, encoder_dim self div 4] \<and>
   up_schedule (decoder_HEAD self) = up_schedule (decoder self) \<and>
   length (up_schedule (encoder self)) + length (up_schedule (decoder self)) =
     length (down_schedule (encoder self)) \<and>
   inputs (decoder self) = [Input [16, 16, last (up_schedule (encoder self))]] \<and>
   init_kwargs [''lowmem'' \<mapsto> PBool lowmem] = Inr ([128, 128, 3], if lowmem then 256 else 512)"
  by (simp add: encoder_def decoder_def decoder_HEAD_def down_schedule_def up_schedule_def
      init_kwargs_def Let_def)

text \<open>
  Claim C7 as stated fails for both latent widths: three up-sampling stages of 512, 256,
  128 (or 256, 128, 64 under \<^verbatim>\<open>lowmem\<close>) against four down-sampling stages of 128,
  256, 512, 1024.
\<close>

theorem decoder_mirrors_encoder_counterexample:
  "\<not> mirrors (encoder (example_model False PNone)) (decoder (example_model False PNone)) \<and>
   \<not> mirrors (encoder (example_model True PNone)) (decoder (example_model True PNone)) \<and>
   up_schedule (decoder (example_model False PNone)) = [512, 256, 128] \<and>
   up_schedule (decoder (example_model True PNone)) = [256, 128, 64] \<and>
   rev (down_schedule (encoder (example_model True PNone))) = [1024, 512, 256, 128]"
  by (simp add: mirrors_def encoder_def decoder_def down_schedule_def up_schedule_def Let_def)
end
